theory Spec2Isabelle
  imports Main
begin

text \<open>
  The repository holds two request handlers. The first, \<^verbatim>\<open>src/index.ts\<close>, serves
  \<^verbatim>\<open>GET /works/{id}/best_oa_location/{kind}\<close>; it is \<open>fetch\<close> below. The second, whose text
  follows the table definition in \<^verbatim>\<open>schema.sql\<close>, serves \<^verbatim>\<open>GET /work/{id}?format={kind}\<close> and
  accepts a DOI as identifier; it is \<open>fetch_doi\<close>. Their helpers are the same text, but for
  \<^verbatim>\<open>normalizeWorkId\<close>, of which the second handler has a longer version
  (\<open>normalizeWorkId_doi\<close>).
\<close>

section \<open>JavaScript strings and the regular expressions of the handlers\<close>

text \<open>
  A JavaScript string is modelled as a \<^typ>\<open>string\<close>: a list of characters, one per code
  unit, for code units below 256. The identifier segment of a request comes from
  \<^verbatim>\<open>url.pathname\<close>, which the URL parser serialises in ASCII, and every character class of the
  regular expressions below (\<^verbatim>\<open>W\<close>, \<^verbatim>\<open>\d\<close>, the nine path-unsafe characters, the colon) is ASCII.
\<close>

definition isDigit :: "char \<Rightarrow> bool" where
  \<comment> \<open>the class \<^verbatim>\<open>\d\<close>\<close>
  "isDigit c \<longleftrightarrow> c \<in> set ''0123456789''"

definition isW :: "char \<Rightarrow> bool" where
  \<comment> \<open>the letter \<^verbatim>\<open>W\<close> under the flag \<^verbatim>\<open>i\<close>\<close>
  "isW c \<longleftrightarrow> c = CHR ''W'' \<or> c = CHR ''w''"

definition isWhiteSpace :: "char \<Rightarrow> bool" where
  \<comment> \<open>white space and line terminators that \<^verbatim>\<open>String.prototype.trim\<close> strips, below 256:
      TAB, LF, VT, FF, CR, SP, NBSP\<close>
  "isWhiteSpace c \<longleftrightarrow>
     c \<in> set [CHR 0x09, CHR 0x0A, CHR 0x0B, CHR 0x0C, CHR 0x0D, CHR 0x20, CHR 0xA0]"

definition trim :: "string \<Rightarrow> string" where
  "trim s = rev (dropWhile isWhiteSpace (rev (dropWhile isWhiteSpace s)))"

definition upperChar :: "char \<Rightarrow> char" where
  "upperChar c =
     (case map_of (zip ''abcdefghijklmnopqrstuvwxyz'' ''ABCDEFGHIJKLMNOPQRSTUVWXYZ'') c of
        Some u \<Rightarrow> u | None \<Rightarrow> c)"

definition lowerChar :: "char \<Rightarrow> char" where
  "lowerChar c =
     (case map_of (zip ''ABCDEFGHIJKLMNOPQRSTUVWXYZ'' ''abcdefghijklmnopqrstuvwxyz'') c of
        Some l \<Rightarrow> l | None \<Rightarrow> c)"

definition toUpperCase :: "string \<Rightarrow> string" where
  \<comment> \<open>applied by the handlers only to text matched by \<^verbatim>\<open>W\d+\<close>, which is ASCII\<close>
  "toUpperCase s = map upperChar s"

definition toLowerCase :: "string \<Rightarrow> string" where
  \<comment> \<open>compared only against \<^verbatim>\<open>"true"\<close>; no character above ASCII lowers to one of its letters\<close>
  "toLowerCase s = map lowerChar s"

definition startsWith :: "string \<Rightarrow> string \<Rightarrow> bool" where
  "startsWith s p \<longleftrightarrow> take (length p) s = p"

definition matchesWorkCode :: "string \<Rightarrow> bool" where
  \<comment> \<open>\<^verbatim>\<open>/^W\d+$/i.test(s)\<close>\<close>
  "matchesWorkCode s =
     (case s of [] \<Rightarrow> False | c # ds \<Rightarrow> isW c \<and> ds \<noteq> [] \<and> list_all isDigit ds)"

fun matchTailCode :: "string \<Rightarrow> string option" where
  \<comment> \<open>\<^verbatim>\<open>s.match(/\/W\d+$/i)\<close>: the leftmost position where a slash is followed by a work code
      that runs to the end of the string; the result is \<^verbatim>\<open>m[0]\<close>\<close>
  "matchTailCode [] = None"
| "matchTailCode (c # cs) =
     (if c = CHR ''/'' \<and> matchesWorkCode cs then Some (c # cs) else matchTailCode cs)"

definition ciEq :: "string \<Rightarrow> string \<Rightarrow> bool" where
  \<comment> \<open>a literal of the pattern against a piece of the subject, under the flag \<^verbatim>\<open>i\<close>\<close>
  "ciEq a b \<longleftrightarrow> map upperChar a = map upperChar b"

fun matchOpenAlexUrl :: "string \<Rightarrow> string option" where
  \<comment> \<open>\<^verbatim>\<open>s.match(/https:\/\/openalex\.org\/(W\d+)/i)\<close>: the leftmost occurrence of the literal,
      then \<^verbatim>\<open>W\<close> and the longest run of digits, at least one; the result is the group
      \<^verbatim>\<open>match[1]\<close>\<close>
  "matchOpenAlexUrl [] = None"
| "matchOpenAlexUrl (c # cs) =
     (let s = c # cs; r = drop 21 s in
      if ciEq (take 21 s) ''https://openalex.org/'' \<and> r \<noteq> [] \<and> isW (hd r)
         \<and> takeWhile isDigit (tl r) \<noteq> []
      then Some (hd r # takeWhile isDigit (tl r))
      else matchOpenAlexUrl cs)"

section \<open>Identifier normalisation\<close>

text \<open>
  \<^verbatim>\<open>new URL(trimmed).pathname\<close> belongs to the platform; it is a parameter of the model:
  \<open>None\<close> when the constructor throws, otherwise the path name of the parsed URL.
\<close>

definition normalizeWorkId :: "(string \<Rightarrow> string option) \<Rightarrow> string \<Rightarrow> string option" where
  \<comment> \<open>\<^verbatim>\<open>src/index.ts\<close>, the endpoint \<^verbatim>\<open>/works/{id}/best_oa_location/{kind}\<close>\<close>
  "normalizeWorkId URL_pathname input =
     (if input = [] then None
      else let trimmed = trim input in
        if matchesWorkCode trimmed then Some (toUpperCase trimmed)
        else (case URL_pathname trimmed of
                None \<Rightarrow> None
              | Some pathname \<Rightarrow>
                  (case matchTailCode pathname of
                     Some m \<Rightarrow> Some (toUpperCase (drop 1 m))
                   | None \<Rightarrow> None)))"

definition normalizeWorkId_doi :: "(string \<Rightarrow> string option) \<Rightarrow> string \<Rightarrow> string option" where
  \<comment> \<open>the second handler, the endpoint \<^verbatim>\<open>/work/{id}?format={kind}\<close>\<close>
  "normalizeWorkId_doi URL_pathname input =
     (if input = [] then None
      else let trimmed = trim input in
        if matchesWorkCode trimmed then Some (toUpperCase trimmed)
        else (case (if startsWith trimmed ''https://openalex.org/W''
                    then matchOpenAlexUrl trimmed else None) of
                Some g \<Rightarrow> Some (toUpperCase g)
              | None \<Rightarrow>
                 (case URL_pathname trimmed of
                    None \<Rightarrow> None
                  | Some pathname \<Rightarrow>
                      (case matchTailCode pathname of
                         Some m \<Rightarrow> Some (toUpperCase (drop 1 m))
                       | None \<Rightarrow> None))))"

definition canonical :: "string \<Rightarrow> bool" where
  \<comment> \<open>a canonical work identifier: the capital letter \<^verbatim>\<open>W\<close>, then one digit or more\<close>
  "canonical s = (case s of [] \<Rightarrow> False | c # ds \<Rightarrow> c = CHR ''W'' \<and> ds \<noteq> [] \<and> list_all isDigit ds)"

section \<open>The platform and the external services\<close>

text \<open>
  Every collaborator of the handlers is a field of the record \<open>world\<close>: what the service
  answers to a call. A call that can reject its promise answers \<open>Throws\<close>. The handlers
  return their outcome together with the list of calls they made, in order.
\<close>

datatype 'a completion = Throws | Returns 'a

record url =
  origin :: string
  pathname :: string
  searchParams :: "(string \<times> string) list"

record request =
  req_method :: string
  req_url :: url
  authorization :: "string option"

record api_key_row =
  credit_card_on_file :: "int option"
  expires_at :: "string option"

record oa_location =
  location_id :: "string option"

record oa_work =
  best_oa_location :: "oa_location option"

datatype oa_reply = FetchRejects | NotOk | BodyNotJson | Body "oa_work option"

record dynamo_item =
  item_id :: "string option"

datatype bucket = PDFS | GROBID_XML

record r2_object =
  r2_body :: string
  httpMetadata :: "string \<rightharpoonup> string"

record s3_response =
  s3_status :: nat
  s3_content_type :: "string option"
  s3_content_length :: "string option"
  s3_body :: string

record world =
  AWS_REGION :: string
  URL_pathname :: "string \<Rightarrow> string option"
  URL_toString :: "url \<Rightarrow> string"
  Date_parse :: "string \<Rightarrow> int option"
  now :: int
  d1_first :: "string \<Rightarrow> api_key_row option completion"
  http_fetch :: "string \<Rightarrow> oa_reply"
  dynamo_send :: "string \<Rightarrow> string \<Rightarrow> dynamo_item list option completion"
  r2_head :: "bucket \<Rightarrow> string \<Rightarrow> bool completion"
  r2_get :: "bucket \<Rightarrow> string \<Rightarrow> r2_object option completion"
  aws_fetch :: "string \<Rightarrow> string \<Rightarrow> s3_response completion"

datatype call =
    CallD1 string
  | CallOpenAlex string
  | CallDynamo string string
  | CallR2Head bucket string
  | CallR2Get bucket string
  | CallS3 string string
  | ConsoleError string
  | ConsoleWarn string nat

datatype jval = JNull | JBool bool | JStr string

type_synonym jobj = "(string \<times> jval) list"

datatype body = Text string | JSON_stringify jobj | FromR2 string | FromS3 string

record response =
  status :: nat
  body :: body
  headers :: "string \<rightharpoonup> string"

datatype outcome = Response response | Uncaught

definition after :: "call list \<Rightarrow> outcome \<times> call list \<Rightarrow> outcome \<times> call list" where
  \<comment> \<open>the calls made so far, then the rest of the handler\<close>
  "after tr r = (fst r, tr @ snd r)"

fun truthy :: "string option \<Rightarrow> bool" where
  \<comment> \<open>a value of type \<^verbatim>\<open>string | null | undefined\<close> in a condition\<close>
  "truthy None = False"
| "truthy (Some s) = (s \<noteq> [])"

fun jtruthy :: "jval \<Rightarrow> bool" where
  "jtruthy JNull = False"
| "jtruthy (JBool b) = b"
| "jtruthy (JStr s) = (s \<noteq> [])"

fun String :: "jval \<Rightarrow> string" where
  "String JNull = ''null''"
| "String (JBool b) = (if b then ''true'' else ''false'')"
| "String (JStr s) = s"

definition orNull :: "string option \<Rightarrow> jval" where
  \<comment> \<open>\<^verbatim>\<open>x || null\<close>\<close>
  "orNull x = (case x of Some s \<Rightarrow> if s \<noteq> [] then JStr s else JNull | None \<Rightarrow> JNull)"

definition nullable :: "string option \<Rightarrow> jval" where
  \<comment> \<open>a value of type \<^verbatim>\<open>string | null\<close> as a JSON field\<close>
  "nullable x = (case x of Some s \<Rightarrow> JStr s | None \<Rightarrow> JNull)"

definition searchParams_get :: "(string \<times> string) list \<Rightarrow> string \<Rightarrow> string option" where
  \<comment> \<open>the first value of the name, or null\<close>
  "searchParams_get ps name = map_of ps name"

definition searchParams_delete :: "(string \<times> string) list \<Rightarrow> string \<Rightarrow> (string \<times> string) list" where
  "searchParams_delete ps name = filter (\<lambda>p. fst p \<noteq> name) ps"

fun split :: "char \<Rightarrow> string \<Rightarrow> string list" where
  \<comment> \<open>\<^verbatim>\<open>s.split("/")\<close>; the empty string gives one empty part\<close>
  "split d [] = [[]]"
| "split d (c # cs) =
     (if c = d then [] # split d cs
      else (case split d cs of p # ps \<Rightarrow> (c # p) # ps | [] \<Rightarrow> [[c]]))"

definition indexOf :: "string \<Rightarrow> char \<Rightarrow> int" where
  "indexOf s c = (if c \<in> set s then int (length (takeWhile (\<lambda>x. x \<noteq> c) s)) else - 1)"

definition hexDigit :: "nat \<Rightarrow> char" where
  "hexDigit n = ''0123456789ABCDEF'' ! (n mod 16)"

definition percent :: "nat \<Rightarrow> string" where
  "percent n = [CHR ''%'', hexDigit (n div 16), hexDigit n]"

definition unreserved :: "char \<Rightarrow> bool" where
  "unreserved c \<longleftrightarrow>
     c \<in> set ''ABCDEFGHIJKLMNOPQRSTUVWXYZabcdefghijklmnopqrstuvwxyz0123456789-_.!~*()''
     \<or> c = CHR 0x27"

definition encodeURIComponent :: "string \<Rightarrow> string" where
  \<comment> \<open>a code unit from 128 to 255 is encoded as the two bytes of its UTF-8 form\<close>
  "encodeURIComponent s =
     concat (map (\<lambda>c. let n = (of_char c :: nat) in
                    if unreserved c then [c]
                    else if n < 128 then percent n
                    else percent (192 + n div 64) @ percent (128 + n mod 64)) s)"

definition unsafeChars :: "char list" where
  \<comment> \<open>the class \<^verbatim>\<open>[\/\\:*?"<>|]\<close>\<close>
  "unsafeChars =
     [CHR ''/'', CHR 0x5C, CHR '':'', CHR ''*'', CHR ''?'', CHR 0x22, CHR ''<'', CHR ''>'', CHR ''|'']"

definition sanitize :: "string \<Rightarrow> string" where
  \<comment> \<open>\<^verbatim>\<open>s.replace(/[\/\\:*?"<>|]/g, "_")\<close>\<close>
  "sanitize s = map (\<lambda>c. if c \<in> set unsafeChars then CHR ''_'' else c) s"

section \<open>Responses\<close>

definition json :: "nat \<Rightarrow> jobj \<Rightarrow> response" where
  "json st data =
     \<lparr>status = st, body = JSON_stringify data,
      headers = [''content-type'' \<mapsto> ''application/json'', ''cache-control'' \<mapsto> ''no-store'']\<rparr>"

definition jsonOrText :: "bool \<Rightarrow> nat \<Rightarrow> jobj \<Rightarrow> response" where
  "jsonOrText wantJson st obj =
     (if wantJson then json st obj
      else \<lparr>status = st,
            body = (case map_of obj ''error'' of
                      Some e \<Rightarrow> if jtruthy e then Text (String e) else JSON_stringify obj
                    | None \<Rightarrow> JSON_stringify obj),
            headers = Map.empty\<rparr>)"

definition plain :: "nat \<Rightarrow> string \<Rightarrow> response" where
  \<comment> \<open>\<^verbatim>\<open>new Response(text, { status })\<close>\<close>
  "plain st text = \<lparr>status = st, body = Text text, headers = Map.empty\<rparr>"

section \<open>The backup tier\<close>

definition s3Host :: "string \<Rightarrow> string \<Rightarrow> string" where
  "s3Host bucket region =
     (if region = ''us-east-1'' then bucket @ ''.s3.amazonaws.com''
      else bucket @ ''.s3.'' @ region @ ''.amazonaws.com'')"

definition s3Url :: "world \<Rightarrow> string \<Rightarrow> string \<Rightarrow> string" where
  "s3Url w bucket key =
     ''https://'' @ s3Host bucket (AWS_REGION w) @ ''/'' @ encodeURIComponent key"

definition s3HeadObject :: "world \<Rightarrow> string \<Rightarrow> string \<Rightarrow> bool completion \<times> call list" where
  "s3HeadObject w bucket key =
     (let u = s3Url w bucket key in
      case aws_fetch w ''HEAD'' u of
        Throws \<Rightarrow> (Throws, [CallS3 ''HEAD'' u])
      | Returns resp \<Rightarrow>
          if s3_status resp = 200 then (Returns True, [CallS3 ''HEAD'' u])
          else if s3_status resp = 404 \<or> s3_status resp = 403
            then (Returns False, [CallS3 ''HEAD'' u])
          else (Returns False,
                [CallS3 ''HEAD'' u, ConsoleWarn ''S3 HEAD unexpected'' (s3_status resp)]))"

definition s3GetObject ::
  "world \<Rightarrow> string \<Rightarrow> string \<Rightarrow> s3_response option completion \<times> call list" where
  "s3GetObject w bucket key =
     (let u = s3Url w bucket key in
      case aws_fetch w ''GET'' u of
        Throws \<Rightarrow> (Throws, [CallS3 ''GET'' u])
      | Returns resp \<Rightarrow>
          if s3_status resp = 200 then (Returns (Some resp), [CallS3 ''GET'' u])
          else if s3_status resp = 404 \<or> s3_status resp = 403
            then (Returns None, [CallS3 ''GET'' u])
          else (Returns None,
                [CallS3 ''GET'' u, ConsoleWarn ''S3 GET unexpected'' (s3_status resp)]))"

definition s3_ok :: "s3_response \<Rightarrow> bool" where
  \<comment> \<open>\<^verbatim>\<open>resp.ok\<close>\<close>
  "s3_ok resp \<longleftrightarrow> 200 \<le> s3_status resp \<and> s3_status resp \<le> 299"

section \<open>The authorization gate\<close>

record auth_result =
  valid :: bool
  hasCreditCard :: bool
  error :: "string option"

definition presentedKey :: "request \<Rightarrow> string option" where
  \<comment> \<open>the query parameter \<^verbatim>\<open>api_key\<close> when it is non-empty, else a bearer token\<close>
  "presentedKey req =
     (let apiKey = searchParams_get (searchParams (req_url req)) ''api_key'' in
      if truthy apiKey then apiKey
      else (case authorization req of
              Some authHeader \<Rightarrow>
                if authHeader \<noteq> [] \<and> startsWith authHeader ''Bearer ''
                then Some (drop 7 authHeader) else apiKey
            | None \<Rightarrow> apiKey))"

definition Boolean :: "int option \<Rightarrow> bool" where
  \<comment> \<open>a column of SQLite that holds 0, 1 or NULL\<close>
  "Boolean v \<longleftrightarrow> v \<noteq> None \<and> v \<noteq> Some 0"

definition checkApiKey :: "world \<Rightarrow> request \<Rightarrow> auth_result \<times> call list" where
  "checkApiKey w req =
     (case presentedKey req of
        None \<Rightarrow> (\<lparr>valid = False, hasCreditCard = False, error = None\<rparr>, [])
      | Some apiKey \<Rightarrow>
          if apiKey = [] then (\<lparr>valid = False, hasCreditCard = False, error = None\<rparr>, [])
          else (case d1_first w apiKey of
             Throws \<Rightarrow>
               (\<lparr>valid = False, hasCreditCard = False, error = Some ''Database error''\<rparr>,
                [CallD1 apiKey, ConsoleError ''Error checking API key:''])
           | Returns None \<Rightarrow>
               (\<lparr>valid = False, hasCreditCard = False, error = Some ''API key not found''\<rparr>,
                [CallD1 apiKey])
           | Returns (Some keyExists) \<Rightarrow>
               (case (case expires_at keyExists of
                        None \<Rightarrow> None
                      | Some e \<Rightarrow>
                          if e \<noteq> [] \<and> (case Date_parse w e of
                                          Some expiresAt \<Rightarrow> expiresAt \<le> now w
                                        | None \<Rightarrow> False)
                          then Some e else None) of
                  Some e \<Rightarrow>
                    (\<lparr>valid = False, hasCreditCard = False,
                      error = Some (''API key expired on '' @ e)\<rparr>,
                     [CallD1 apiKey])
                | None \<Rightarrow>
                    (\<lparr>valid = True,
                      hasCreditCard = Boolean (credit_card_on_file keyExists),
                      error = None\<rparr>,
                     [CallD1 apiKey]))))"

section \<open>The catalog and the location reference\<close>

definition openAlexEndpoint :: "string \<Rightarrow> string" where
  "openAlexEndpoint workId =
     ''https://api.openalex.org/works/'' @ encodeURIComponent workId
       @ ''?data-version=2&select=id,best_oa_location''"

definition fetchOpenAlexWork :: "world \<Rightarrow> string \<Rightarrow> oa_work option completion \<times> call list" where
  "fetchOpenAlexWork w workId =
     (let endpoint = openAlexEndpoint workId in
      (case http_fetch w endpoint of
         FetchRejects \<Rightarrow> Throws
       | NotOk \<Rightarrow> Returns None
       | BodyNotJson \<Rightarrow> Throws
       | Body v \<Rightarrow> Returns v,
       [CallOpenAlex endpoint]))"

definition splitLocationId :: "string \<Rightarrow> (string \<times> string) option" where
  \<comment> \<open>step 2 of the handlers: \<open>None\<close> where they answer 502, else scheme and native id\<close>
  "splitLocationId locId =
     (let colon = indexOf locId (CHR '':'') in
      if colon \<le> 0 \<or> colon = int (length locId) - 1 then None
      else Some (take (nat colon) locId, drop (nat (colon + 1)) locId))"

section \<open>Index lookup and tiered retrieval\<close>

text \<open>
  Steps 3 to 5 are the same text in both handlers, but for three expressions: the second
  handler writes \<^verbatim>\<open>workId || rawId\<close> where the first writes \<^verbatim>\<open>workId\<close> (in the body of the
  500 response and in the file name), and \<^verbatim>\<open>workId ? ... : null\<close> for the field
  \<^verbatim>\<open>work_api\<close>. The first handler reaches these steps with a \<^verbatim>\<open>workId\<close> and a \<^verbatim>\<open>locId\<close> that are
  never null, where the expressions of the two agree; so the steps are defined once, with
  \<open>workId\<close> and \<open>locId\<close> of type \<^typ>\<open>string option\<close>.
\<close>

definition fileExt :: "bool \<Rightarrow> string" where
  "fileExt isGrobid = (if isGrobid then ''.xml.gz'' else ''.pdf'')"

definition tableName :: "bool \<Rightarrow> string" where
  "tableName isGrobid = (if isGrobid then ''grobid-xml'' else ''harvested-pdf'')"

definition contentType :: "bool \<Rightarrow> string" where
  "contentType isGrobid = (if isGrobid then ''application/gzip'' else ''application/pdf'')"

definition fileType :: "bool \<Rightarrow> string" where
  "fileType isGrobid = (if isGrobid then ''Grobid XML'' else ''PDF'')"

definition r2Bucket :: "bool \<Rightarrow> bucket" where
  "r2Bucket isGrobid = (if isGrobid then GROBID_XML else PDFS)"

definition s3Bucket :: "bool \<Rightarrow> string" where
  "s3Bucket isGrobid =
     (if isGrobid then ''openalex-harvested-grobid-xml'' else ''openalex-harvested-pdfs'')"

definition orElse :: "string option \<Rightarrow> string \<Rightarrow> string" where
  \<comment> \<open>\<^verbatim>\<open>x || y\<close>, as in \<^verbatim>\<open>workId || rawId\<close>\<close>
  "orElse x y = (case x of Some s \<Rightarrow> if s \<noteq> [] then s else y | None \<Rightarrow> y)"

definition safeName :: "bool \<Rightarrow> string option \<Rightarrow> string \<Rightarrow> string" where
  "safeName isGrobid workId rawId = sanitize (orElse workId rawId) @ fileExt isGrobid"

definition contentDisposition :: "string \<Rightarrow> string" where
  "contentDisposition name =
     ''attachment; filename='' @ [CHR 0x22] @ name @ [CHR 0x22] @ ''; filename*=UTF-8''
       @ [CHR 0x27, CHR 0x27] @ encodeURIComponent name"

definition download ::
  "world \<Rightarrow> bool \<Rightarrow> string \<Rightarrow> string option \<Rightarrow> string option \<Rightarrow> outcome \<times> call list" where
  \<comment> \<open>step 5, the download path\<close>
  "download w isGrobid rawId workId uuid =
     (case uuid of
        None \<Rightarrow>
          (Response (plain 404 (fileType isGrobid @ '' mapping not found (native_id not in DB)'')), [])
      | Some u \<Rightarrow>
          if u = [] then
            (Response (plain 404 (fileType isGrobid @ '' mapping not found (native_id not in DB)'')), [])
          else
            (let r2Key = u @ fileExt isGrobid;
                 name = safeName isGrobid workId rawId in
             case r2_get w (r2Bucket isGrobid) r2Key of
               Throws \<Rightarrow> (Uncaught, [CallR2Get (r2Bucket isGrobid) r2Key])
             | Returns (Some r2Obj) \<Rightarrow>
                 (Response \<lparr>status = 200, body = FromR2 (r2_body r2Obj),
                    headers = (httpMetadata r2Obj)
                      (''content-type'' \<mapsto> contentType isGrobid,
                       ''content-disposition'' \<mapsto> contentDisposition name,
                       ''cache-control'' \<mapsto> ''private, no-store'')\<rparr>,
                  [CallR2Get (r2Bucket isGrobid) r2Key])
             | Returns None \<Rightarrow>
                 after [CallR2Get (r2Bucket isGrobid) r2Key]
                   (case s3GetObject w (s3Bucket isGrobid) r2Key of
                      (Throws, tr) \<Rightarrow> (Uncaught, tr)
                    | (Returns (Some s3Resp), tr) \<Rightarrow>
                        if s3_ok s3Resp then
                          (Response \<lparr>status = 200, body = FromS3 (s3_body s3Resp),
                             headers =
                               (let h = [''content-type'' \<mapsto>
                                           orElse (s3_content_type s3Resp) (contentType isGrobid),
                                         ''content-disposition'' \<mapsto> contentDisposition name,
                                         ''cache-control'' \<mapsto> ''private, no-store'']
                                in case s3_content_length s3Resp of
                                     Some len \<Rightarrow>
                                       if len \<noteq> [] then h(''content-length'' \<mapsto> len) else h
                                   | None \<Rightarrow> h)\<rparr>,
                           tr)
                        else
                          (Response (plain 404 (fileType isGrobid @ '' not found in R2 or S3 (''
                                       @ r2Key @ '')'')), tr)
                    | (Returns None, tr) \<Rightarrow>
                        (Response (plain 404 (fileType isGrobid @ '' not found in R2 or S3 (''
                                     @ r2Key @ '')'')), tr))))"

definition probe :: "world \<Rightarrow> bool \<Rightarrow> string \<Rightarrow> (bool \<times> bool) completion \<times> call list" where
  \<comment> \<open>step 4, the block under \<^verbatim>\<open>if (r2Key)\<close>: the flags \<^verbatim>\<open>in_r2\<close> and \<^verbatim>\<open>in_s3\<close>\<close>
  "probe w isGrobid r2Key =
     (let b = r2Bucket isGrobid;
          s3 = (\<lambda>in_r2 tr.
                  case s3HeadObject w (s3Bucket isGrobid) r2Key of
                    (Throws, tr') \<Rightarrow> (Throws, tr @ tr')
                  | (Returns in_s3, tr') \<Rightarrow> (Returns (in_r2, in_s3), tr @ tr'))
      in case r2_head w b r2Key of
           Throws \<Rightarrow> (Throws, [CallR2Head b r2Key])
         | Returns True \<Rightarrow> s3 True [CallR2Head b r2Key]
         | Returns False \<Rightarrow>
             (case r2_get w b r2Key of
                Throws \<Rightarrow> (Throws, [CallR2Head b r2Key, CallR2Get b r2Key])
              | Returns obj \<Rightarrow> s3 (obj \<noteq> None) [CallR2Head b r2Key, CallR2Get b r2Key]))"

definition metadata ::
  "world \<Rightarrow> request \<Rightarrow> bool \<Rightarrow> string \<Rightarrow> string option \<Rightarrow> string option \<Rightarrow> string \<Rightarrow> string
     \<Rightarrow> string option \<Rightarrow> bool \<Rightarrow> outcome \<times> call list" where
  \<comment> \<open>step 4, the JSON metadata path\<close>
  "metadata w req isGrobid rawId workId locId scheme nativeId uuid mappingFound =
     (let r2Key = (case uuid of
                     Some u \<Rightarrow> if u \<noteq> [] then Some (u @ fileExt isGrobid) else None
                   | None \<Rightarrow> None);
          self = URL_toString w
                   ((req_url req)\<lparr>searchParams :=
                      searchParams_delete (searchParams (req_url req)) ''json''\<rparr>);
          reply = (\<lambda>in_r2 in_s3.
            Response (json 200
              [(''work_id'', JStr rawId),
               (''work_api'',
                  case workId of
                    Some wid \<Rightarrow>
                      if wid \<noteq> []
                      then JStr (''https://api.openalex.org/works/'' @ wid @ ''?data-version=2'')
                      else JNull
                  | None \<Rightarrow> JNull),
               (''best_oa_location_id'', nullable locId),
               (''native_id'', JStr nativeId),
               (''native_id_namespace'', JStr scheme),
               (''mapping_found_in_dynamodb'', JBool mappingFound),
               (''file_uuid'', orNull uuid),
               (''file_key'', orNull r2Key),
               (''in_r2'', JBool in_r2),
               (''in_s3'', JBool in_s3),
               (''download_url'',
                  if truthy r2Key \<and> (in_r2 \<or> in_s3) then JStr self else JNull)]))
      in case r2Key of
           None \<Rightarrow> (reply False False, [])
         | Some key \<Rightarrow>
             (case probe w isGrobid key of
                (Throws, tr) \<Rightarrow> (Uncaught, tr)
              | (Returns (in_r2, in_s3), tr) \<Rightarrow> (reply in_r2 in_s3, tr)))"

definition lookup ::
  "world \<Rightarrow> request \<Rightarrow> bool \<Rightarrow> bool \<Rightarrow> string \<Rightarrow> string option \<Rightarrow> string option \<Rightarrow> string
     \<Rightarrow> string \<Rightarrow> outcome \<times> call list" where
  \<comment> \<open>step 3, the index query by native id, then step 4 or step 5\<close>
  "lookup w req isGrobid wantJson rawId workId locId scheme nativeId =
     (case dynamo_send w (tableName isGrobid) nativeId of
        Throws \<Rightarrow>
          (Response (jsonOrText wantJson 500
             [(''error'', JStr ''Internal server error (DynamoDB)''),
              (''work_id'', JStr (orElse workId rawId)),
              (''best_oa_location_id'', nullable locId),
              (''scheme'', JStr scheme),
              (''native_id'', JStr nativeId),
              (''table_name'', JStr (tableName isGrobid))]),
           [CallDynamo (tableName isGrobid) nativeId, ConsoleError ''DynamoDB error:''])
      | Returns Items \<Rightarrow>
          (let uuid = (case Items of Some (item # _) \<Rightarrow> item_id item | _ \<Rightarrow> None);
               mappingFound = (case Items of Some (item # _) \<Rightarrow> truthy (item_id item) | _ \<Rightarrow> False)
           in after [CallDynamo (tableName isGrobid) nativeId]
                (if wantJson
                 then metadata w req isGrobid rawId workId locId scheme nativeId uuid mappingFound
                 else download w isGrobid rawId workId uuid)))"

section \<open>The two handlers\<close>

definition provideKey :: string where
  "provideKey = ''Provide a valid API key in '' @ [CHR 0x27] @ ''api_key'' @ [CHR 0x27]
     @ '' query parameter or '' @ [CHR 0x27] @ ''Authorization'' @ [CHR 0x27] @ '' header''"

definition gate ::
  "world \<Rightarrow> request \<Rightarrow> bool \<Rightarrow> outcome \<times> call list \<Rightarrow> outcome \<times> call list" where
  \<comment> \<open>the check of the API key, the same text in both handlers; \<open>rest\<close> is what follows it\<close>
  "gate w req wantJson rest =
     (case checkApiKey w req of
        (authResult, tr) \<Rightarrow>
          if \<not> valid authResult then
            (Response (jsonOrText wantJson 401
               [(''error'', JStr ''Invalid or missing API key''),
                (''message'', JStr (orElse (error authResult) provideKey))]), tr)
          else if \<not> hasCreditCard authResult then
            (Response (jsonOrText wantJson 403
               [(''error'', JStr ''Payment required''),
                (''message'', JStr ''A credit card on file is required to download files'')]), tr)
          else after tr rest)"

definition wantsJson :: "request \<Rightarrow> bool" where
  "wantsJson req \<longleftrightarrow>
     toLowerCase (orElse (searchParams_get (searchParams (req_url req)) ''json'') []) = ''true''"

definition pathParts :: "request \<Rightarrow> string list" where
  "pathParts req = split (CHR ''/'') (dropWhile (\<lambda>c. c = CHR ''/'') (pathname (req_url req)))"

definition catalog ::
  "world \<Rightarrow> request \<Rightarrow> bool \<Rightarrow> bool \<Rightarrow> string \<Rightarrow> string \<Rightarrow> outcome \<times> call list" where
  \<comment> \<open>steps 1 and 2 of \<^verbatim>\<open>src/index.ts\<close>; \<^verbatim>\<open>locId.indexOf\<close> throws where the id is absent\<close>
  "catalog w req isGrobid wantJson rawId workId =
     (case fetchOpenAlexWork w workId of
        (Throws, tr) \<Rightarrow> (Uncaught, tr)
      | (Returns oa, tr) \<Rightarrow>
          (case (case oa of None \<Rightarrow> None | Some work \<Rightarrow> best_oa_location work) of
             None \<Rightarrow>
               (Response (jsonOrText wantJson 404
                  [(''error'', JStr ''No best_oa_location for this work''),
                   (''work_id'', JStr workId)]), tr)
           | Some loc \<Rightarrow>
               (case location_id loc of
                  None \<Rightarrow> (Uncaught, tr)
                | Some locId \<Rightarrow>
                    (case splitLocationId locId of
                       None \<Rightarrow>
                         (Response (jsonOrText wantJson 502
                            [(''error'', JStr ''Unrecognized best_oa_location.id format''),
                             (''work_id'', JStr workId),
                             (''best_oa_location_id'', JStr locId)]), tr)
                     | Some (scheme, nativeId) \<Rightarrow>
                         after tr (lookup w req isGrobid wantJson rawId (Some workId)
                                     (Some locId) scheme nativeId)))))"

definition catalog_doi ::
  "world \<Rightarrow> request \<Rightarrow> bool \<Rightarrow> bool \<Rightarrow> string \<Rightarrow> string \<Rightarrow> outcome \<times> call list" where
  \<comment> \<open>steps 1 and 2 of the second handler, under \<^verbatim>\<open>if (!isDoi)\<close>\<close>
  "catalog_doi w req isGrobid wantJson rawId workId =
     (case fetchOpenAlexWork w workId of
        (Throws, tr) \<Rightarrow> (Uncaught, tr)
      | (Returns oa, tr) \<Rightarrow>
          (case (case oa of None \<Rightarrow> None | Some work \<Rightarrow> best_oa_location work) of
             None \<Rightarrow>
               (Response (jsonOrText wantJson 404
                  [(''error'', JStr ''No best_oa_location for this work''),
                   (''work_id'', JStr workId)]), tr)
           | Some loc \<Rightarrow>
               (let missing = (Response (jsonOrText wantJson 502
                                 [(''error'', JStr ''Missing best_oa_location.id''),
                                  (''work_id'', JStr workId)]), tr)
                in case location_id loc of
                  None \<Rightarrow> missing
                | Some locId \<Rightarrow>
                    if locId = [] then missing
                    else
                      (case splitLocationId locId of
                         None \<Rightarrow>
                           (Response (jsonOrText wantJson 502
                              [(''error'', JStr ''Unrecognized best_oa_location.id format''),
                               (''work_id'', JStr workId),
                               (''best_oa_location_id'', JStr locId)]), tr)
                       | Some (scheme, nativeId) \<Rightarrow>
                           after tr (lookup w req isGrobid wantJson rawId (Some workId)
                                       (Some locId) scheme nativeId)))))"

definition fetch :: "world \<Rightarrow> request \<Rightarrow> outcome \<times> call list" where
  \<comment> \<open>\<^verbatim>\<open>src/index.ts\<close>: \<^verbatim>\<open>GET /works/{id}/best_oa_location/pdf\<close> or \<^verbatim>\<open>.../parsed-pdf\<close>\<close>
  "fetch w req =
     (if req_method req \<noteq> ''GET'' then (Response (plain 405 ''Method Not Allowed''), [])
      else case pathParts req of
        [p0, rawId, p2, p3] \<Rightarrow>
          if p0 \<noteq> ''works'' \<or> p2 \<noteq> ''best_oa_location''
             \<or> (p3 \<noteq> ''pdf'' \<and> p3 \<noteq> ''parsed-pdf'')
          then (Response (plain 404 ''Not Found''), [])
          else
            (let isGrobid = (p3 = ''parsed-pdf'');
                 wantJson = wantsJson req;
                 invalid = (Response (jsonOrText wantJson 400
                              [(''error'', JStr ''Invalid work id''),
                               (''work_id_input'', JStr rawId)]), [])
             in case normalizeWorkId (URL_pathname w) rawId of
                  None \<Rightarrow> invalid
                | Some workId \<Rightarrow>
                    if workId = [] then invalid
                    else gate w req wantJson (catalog w req isGrobid wantJson rawId workId))
      | _ \<Rightarrow> (Response (plain 404 ''Not Found''), []))"

definition badFormat :: string where
  "badFormat = ''Bad Request: format query parameter must be '' @ [CHR 0x27] @ ''pdf''
     @ [CHR 0x27] @ '' or '' @ [CHR 0x27] @ ''parsed-pdf'' @ [CHR 0x27]"

definition fetch_doi :: "world \<Rightarrow> request \<Rightarrow> outcome \<times> call list" where
  \<comment> \<open>the second handler: \<^verbatim>\<open>GET /work/{id}?format=pdf\<close> or \<^verbatim>\<open>format=parsed-pdf\<close>\<close>
  "fetch_doi w req =
     (if req_method req \<noteq> ''GET'' then (Response (plain 405 ''Method Not Allowed''), [])
      else case pathParts req of
        [p0, rawId] \<Rightarrow>
          if p0 \<noteq> ''work'' then (Response (plain 404 ''Not Found''), [])
          else
            (let format = searchParams_get (searchParams (req_url req)) ''format'' in
             if \<not> truthy format \<or> (format \<noteq> Some ''pdf'' \<and> format \<noteq> Some ''parsed-pdf'')
             then (Response (plain 400 badFormat), [])
             else
               (let isGrobid = (format = Some ''parsed-pdf'');
                    wantJson = wantsJson req;
                    isDoi = startsWith rawId ''10.''
                in if isDoi then
                     gate w req wantJson
                       (lookup w req isGrobid wantJson rawId None None ''doi'' rawId)
                   else
                     (let invalid = (Response (jsonOrText wantJson 400
                                       [(''error'', JStr ''Invalid work id''),
                                        (''work_id_input'', JStr rawId)]), [])
                      in case normalizeWorkId_doi (URL_pathname w) rawId of
                           None \<Rightarrow> invalid
                         | Some workId \<Rightarrow>
                             if workId = [] then invalid
                             else gate w req wantJson
                                    (catalog_doi w req isGrobid wantJson rawId workId))))
      | _ \<Rightarrow> (Response (plain 404 ''Not Found''), []))"

section \<open>Vocabulary of the properties\<close>

fun str_includes :: "string \<Rightarrow> string \<Rightarrow> bool" where
  \<comment> \<open>\<^verbatim>\<open>s.includes(p)\<close>: the text \<open>p\<close> occurs in \<open>s\<close>\<close>
  "str_includes [] p = (p = [])"
| "str_includes (c # cs) p = (startsWith (c # cs) p \<or> str_includes cs p)"

definition stripUnsafe :: "string \<Rightarrow> string" where
  \<comment> \<open>the words of the specification: every path-unsafe character removed\<close>
  "stripUnsafe s = filter (\<lambda>c. c \<notin> set unsafeChars) s"

definition firstColon :: "string \<Rightarrow> nat" where
  \<comment> \<open>the position of the first colon; the length of the text where it has none\<close>
  "firstColon s = length (takeWhile (\<lambda>c. c \<noteq> CHR '':'') s)"

definition malformed :: "string \<Rightarrow> bool" where
  \<comment> \<open>the words of the specification: no colon, a colon at position 0, or the first colon as
      the last character\<close>
  "malformed s \<longleftrightarrow>
     CHR '':'' \<notin> set s \<or> firstColon s = 0 \<or> firstColon s + 1 = length s"

section \<open>A concrete world, for evaluating the handlers\<close>

definition absent :: s3_response where
  "absent = \<lparr>s3_status = 404, s3_content_type = None, s3_content_length = None, s3_body = []\<rparr>"

definition demo :: world where
  "demo =
     \<lparr>AWS_REGION = ''us-east-1'',
      URL_pathname = (\<lambda>_. None),
      URL_toString = (\<lambda>u. origin u @ pathname u),
      Date_parse = (\<lambda>s. if s = ''2020-01-01'' then Some 1577836800000 else None),
      now = 1700000000000,
      d1_first = (\<lambda>k.
        if k = ''good'' then Returns (Some \<lparr>credit_card_on_file = Some 1, expires_at = None\<rparr>)
        else if k = ''old''
          then Returns (Some \<lparr>credit_card_on_file = Some 1, expires_at = Some ''2020-01-01''\<rparr>)
        else if k = ''nocard''
          then Returns (Some \<lparr>credit_card_on_file = Some 0, expires_at = None\<rparr>)
        else Returns None),
      http_fetch = (\<lambda>u.
        if u = openAlexEndpoint ''W1''
          then Body (Some \<lparr>best_oa_location = Some \<lparr>location_id = Some ''doi:10.1/abc''\<rparr>\<rparr>)
        else if u = openAlexEndpoint ''W2''
          then Body (Some \<lparr>best_oa_location = Some \<lparr>location_id = Some ''doi:''\<rparr>\<rparr>)
        else if u = openAlexEndpoint ''W12345''
          then Body (Some \<lparr>best_oa_location = Some \<lparr>location_id = Some ''doi:10.9/none''\<rparr>\<rparr>)
        else NotOk),
      dynamo_send = (\<lambda>t n.
        if n = ''10.1/abc'' \<or> n = ''10.1:2'' then Returns (Some [\<lparr>item_id = Some ''u1''\<rparr>])
        else Returns (Some [])),
      r2_head = (\<lambda>_ _. Returns False),
      r2_get = (\<lambda>b k.
        if b = PDFS \<and> k = ''u1.pdf''
        then Returns (Some \<lparr>r2_body = ''%PDF'', httpMetadata = Map.empty\<rparr>)
        else Returns None),
      aws_fetch = (\<lambda>m u. Returns absent)\<rparr>"

definition get :: "string \<Rightarrow> (string \<times> string) list \<Rightarrow> request" where
  \<comment> \<open>a GET request for a path and query parameters, with no header\<close>
  "get path params =
     \<lparr>req_method = ''GET'',
      req_url = \<lparr>origin = ''https://content.example'', pathname = path, searchParams = params\<rparr>,
      authorization = None\<rparr>"

section \<open>Properties of normalisation\<close>

lemma upperChar_digit: "isDigit c \<Longrightarrow> upperChar c = c"
  apply (simp add: isDigit_def)
  apply (elim disjE)
  apply (simp_all add: upperChar_def)
  done

lemma upperChar_W: "isW c \<Longrightarrow> upperChar c = CHR ''W''"
  apply (simp add: isW_def)
  apply (elim disjE)
  apply (simp_all add: upperChar_def)
  done

lemma map_upperChar_digits: "list_all isDigit ds \<Longrightarrow> map upperChar ds = ds"
  by (induction ds) (simp_all add: upperChar_digit)

lemma toUpperCase_code: "matchesWorkCode s \<Longrightarrow> canonical (toUpperCase s)"
  by (cases s) (simp_all add: matchesWorkCode_def canonical_def toUpperCase_def
      upperChar_W map_upperChar_digits)

lemma matchTailCode_code: "matchTailCode s = Some m \<Longrightarrow> matchesWorkCode (drop 1 m)"
  by (induction s) (auto split: if_splits)

lemma matchOpenAlexUrl_code: "matchOpenAlexUrl s = Some g \<Longrightarrow> matchesWorkCode g"
proof (induction s)
  case Nil
  then show ?case by simp
next
  case (Cons c cs)
  show ?case
  proof (cases "matchOpenAlexUrl (c # cs) = matchOpenAlexUrl cs")
    case True
    with Cons show ?thesis by simp
  next
    case False
    then have g: "g = hd (drop 21 (c # cs)) # takeWhile isDigit (tl (drop 21 (c # cs)))"
      and w: "isW (hd (drop 21 (c # cs)))"
      and d: "takeWhile isDigit (tl (drop 21 (c # cs))) \<noteq> []"
      using Cons.prems by (auto simp: Let_def split: if_splits)
    have "list_all isDigit (takeWhile isDigit (tl (drop 21 (c # cs))))"
      by (simp add: list_all_iff) (meson set_takeWhileD)
    with g w d show ?thesis by (simp add: matchesWorkCode_def)
  qed
qed

lemma digit_not_space: "isDigit c \<Longrightarrow> \<not> isWhiteSpace c"
  apply (simp add: isDigit_def)
  apply (elim disjE)
  apply (simp_all add: isWhiteSpace_def)
  done

lemma W_not_space: "\<not> isWhiteSpace (CHR ''W'')"
  by (simp add: isWhiteSpace_def)

lemma canonical_no_space: "canonical s \<Longrightarrow> trim s = s"
proof -
  assume c: "canonical s"
  then obtain ds where s: "s = CHR ''W'' # ds" and ne: "ds \<noteq> []" and dg: "list_all isDigit ds"
    by (cases s) (auto simp: canonical_def)
  from ne dg have "isDigit (last ds)"
    by (simp add: list_all_iff)
  then have l: "\<not> isWhiteSpace (last ds)"
    by (rule digit_not_space)
  have front: "dropWhile isWhiteSpace s = s"
    unfolding s using W_not_space by simp
  have "hd (rev s) = last ds"
    using ne by (simp add: s hd_rev)
  with l have "dropWhile isWhiteSpace (rev s) = rev s"
    by (simp add: dropWhile_eq_self_iff)
  with front show ?thesis
    by (simp add: trim_def)
qed

lemma canonical_matches: "canonical s \<Longrightarrow> matchesWorkCode s"
  by (cases s) (auto simp: canonical_def matchesWorkCode_def isW_def)

lemma canonical_upper: "canonical s \<Longrightarrow> toUpperCase s = s"
  by (cases s) (auto simp: canonical_def toUpperCase_def upperChar_W isW_def map_upperChar_digits)

lemma normalizeWorkId_canonical: "normalizeWorkId U x = Some y \<Longrightarrow> canonical y"
  by (auto simp: normalizeWorkId_def Let_def toUpperCase_code
      split: if_splits option.splits dest!: matchTailCode_code)

lemma normalizeWorkId_doi_canonical: "normalizeWorkId_doi U x = Some y \<Longrightarrow> canonical y"
  by (auto simp: normalizeWorkId_doi_def Let_def toUpperCase_code
      matchOpenAlexUrl_code split: if_splits option.splits dest!: matchTailCode_code)

lemma normalizeWorkId_fixes_canonical: "canonical y \<Longrightarrow> normalizeWorkId U y = Some y"
  by (auto simp: normalizeWorkId_def Let_def canonical_no_space canonical_matches canonical_upper)
    (simp add: canonical_def)

lemma normalizeWorkId_doi_fixes_canonical: "canonical y \<Longrightarrow> normalizeWorkId_doi U y = Some y"
  by (auto simp: normalizeWorkId_doi_def Let_def canonical_no_space canonical_matches
      canonical_upper) (simp add: canonical_def)

lemma normalizeWorkId_doi_idempotent:
  "normalizeWorkId_doi U x = Some y \<Longrightarrow> normalizeWorkId_doi U y = Some y \<and> canonical y"
  using normalizeWorkId_doi_canonical normalizeWorkId_doi_fixes_canonical by blast

text \<open>
  Claim C8. Normalisation is idempotent: where \<open>normalizeWorkId\<close> returns an identifier,
  applying it to that identifier returns the same identifier, which is canonical (the letter
  \<^verbatim>\<open>W\<close> and digits). This holds whatever the platform's URL parser answers.
\<close>

theorem normalizeWorkId_idempotent:
  "normalizeWorkId U x = Some y \<Longrightarrow> normalizeWorkId U y = Some y \<and> canonical y"
  using normalizeWorkId_canonical normalizeWorkId_fixes_canonical by blast

theorem normalizeWorkId_idempotent_witness:
  "normalizeWorkId (\<lambda>_. None) ''w123'' = Some ''W123''
   \<and> normalizeWorkId (\<lambda>_. None) ''W123'' = Some ''W123''"
proof -
  have h: "normalizeWorkId (\<lambda>_. None) ''w123'' = Some ''W123''"
    by (simp add: normalizeWorkId_def trim_def isWhiteSpace_def matchesWorkCode_def isW_def
        isDigit_def toUpperCase_def upperChar_def)
  from normalizeWorkId_idempotent [OF h] h show ?thesis by simp
qed

section \<open>Evaluation\<close>

lemmas string_defs =
  trim_def isWhiteSpace_def matchesWorkCode_def isW_def isDigit_def toUpperCase_def
  toLowerCase_def upperChar_def lowerChar_def startsWith_def ciEq_def indexOf_def
  encodeURIComponent_def unreserved_def percent_def hexDigit_def sanitize_def unsafeChars_def
  searchParams_get_def searchParams_delete_def orElse_def orNull_def nullable_def

lemmas stage_defs =
  json_def jsonOrText_def plain_def s3Host_def s3Url_def s3HeadObject_def s3GetObject_def
  s3_ok_def presentedKey_def Boolean_def checkApiKey_def openAlexEndpoint_def
  fetchOpenAlexWork_def splitLocationId_def fileExt_def tableName_def contentType_def
  fileType_def r2Bucket_def s3Bucket_def safeName_def contentDisposition_def download_def
  probe_def metadata_def lookup_def provideKey_def gate_def wantsJson_def pathParts_def
  catalog_def catalog_doi_def badFormat_def after_def

lemmas handler_defs =
  fetch_def fetch_doi_def normalizeWorkId_def normalizeWorkId_doi_def

lemmas demo_defs = demo_def get_def absent_def

section \<open>The backup tier helpers\<close>

text \<open>
  Claim C5. Whatever status the signed request answers, the helpers return: \<open>s3HeadObject\<close>
  returns true exactly when the status of the HEAD response is 200, and false for 403, 404
  and every other status; \<open>s3GetObject\<close> returns the response exactly when the status of the
  GET response is 200, and null for 403, 404 and every other status.
\<close>

theorem s3_helpers_fold_status:
  "(aws_fetch w ''HEAD'' (s3Url w bucket key) = Returns r \<longrightarrow>
      fst (s3HeadObject w bucket key) = Returns (s3_status r = 200))
   \<and> (aws_fetch w ''GET'' (s3Url w bucket key) = Returns r' \<longrightarrow>
      fst (s3GetObject w bucket key) = Returns (if s3_status r' = 200 then Some r' else None))"
  by (simp add: s3HeadObject_def s3GetObject_def Let_def)

theorem s3_helpers_fold_status_witness:
  "fst (s3HeadObject (demo\<lparr>aws_fetch := \<lambda>m u. Returns (absent\<lparr>s3_status := 403\<rparr>)\<rparr>)
          ''openalex-harvested-pdfs'' ''u1.pdf'') = Returns False
   \<and> fst (s3GetObject (demo\<lparr>aws_fetch := \<lambda>m u. Returns (absent\<lparr>s3_status := 200\<rparr>)\<rparr>)
          ''openalex-harvested-pdfs'' ''u1.pdf'') = Returns (Some (absent\<lparr>s3_status := 200\<rparr>))
   \<and> fst (s3HeadObject (demo\<lparr>aws_fetch := \<lambda>m u. Returns (absent\<lparr>s3_status := 500\<rparr>)\<rparr>)
          ''openalex-harvested-pdfs'' ''u1.pdf'') = Returns False"
  using
    s3_helpers_fold_status [of "demo\<lparr>aws_fetch := \<lambda>m u. Returns (absent\<lparr>s3_status := 403\<rparr>)\<rparr>"
      "''openalex-harvested-pdfs''" "''u1.pdf''" "absent\<lparr>s3_status := 403\<rparr>"
      "absent\<lparr>s3_status := 403\<rparr>"]
    s3_helpers_fold_status [of "demo\<lparr>aws_fetch := \<lambda>m u. Returns (absent\<lparr>s3_status := 200\<rparr>)\<rparr>"
      "''openalex-harvested-pdfs''" "''u1.pdf''" "absent\<lparr>s3_status := 200\<rparr>"
      "absent\<lparr>s3_status := 200\<rparr>"]
    s3_helpers_fold_status [of "demo\<lparr>aws_fetch := \<lambda>m u. Returns (absent\<lparr>s3_status := 500\<rparr>)\<rparr>"
      "''openalex-harvested-pdfs''" "''u1.pdf''" "absent\<lparr>s3_status := 500\<rparr>"
      "absent\<lparr>s3_status := 500\<rparr>"]
  by (simp add: demo_defs)

section \<open>The authorization gate\<close>

lemma checkApiKey_expired:
  assumes "presentedKey req = Some k" and "k \<noteq> []"
    and "d1_first w k = Returns (Some row)"
    and "expires_at row = Some e" and "e \<noteq> []"
    and "Date_parse w e = Some t" and "t \<le> now w"
  shows "checkApiKey w req =
           (\<lparr>valid = False, hasCreditCard = False, error = Some (''API key expired on '' @ e)\<rparr>,
            [CallD1 k])"
  using assms by (simp add: checkApiKey_def)

lemma gate_invalid:
  assumes "fst (checkApiKey w req) = \<lparr>valid = False, hasCreditCard = c, error = Some m\<rparr>"
    and "m \<noteq> []"
  shows "fst (gate w req wantJson rest) =
           Response (jsonOrText wantJson 401
             [(''error'', JStr ''Invalid or missing API key''), (''message'', JStr m)])"
  using assms by (cases "checkApiKey w req") (simp add: gate_def orElse_def)

text \<open>
  Claim C10. A stored record whose \<^verbatim>\<open>expires_at\<close> is null never expires: whatever the current
  time and whatever the date parser would answer, \<open>checkApiKey\<close> returns \<open>valid = True\<close>, with
  \<open>hasCreditCard\<close> the stored flag \<^verbatim>\<open>credit_card_on_file\<close>, after the one call to the key store.
\<close>

theorem checkApiKey_no_expiry:
  assumes "presentedKey req = Some k" and "k \<noteq> []"
    and "d1_first w k = Returns (Some row)"
    and "expires_at row = None"
  shows "\<forall>n p. checkApiKey (w\<lparr>Date_parse := p, now := n\<rparr>) req =
           (\<lparr>valid = True, hasCreditCard = Boolean (credit_card_on_file row), error = None\<rparr>,
            [CallD1 k])"
  using assms by (simp add: checkApiKey_def)

theorem checkApiKey_no_expiry_witness:
  "presentedKey (get ''/works/W1/best_oa_location/pdf'' [(''api_key'', ''nocard'')]) = Some ''nocard''
   \<and> d1_first demo ''nocard'' = Returns (Some \<lparr>credit_card_on_file = Some 0, expires_at = None\<rparr>)
   \<and> checkApiKey (demo\<lparr>Date_parse := (\<lambda>_. Some 0), now := 5\<rparr>)
          (get ''/works/W1/best_oa_location/pdf'' [(''api_key'', ''nocard'')]) =
        (\<lparr>valid = True, hasCreditCard = False, error = None\<rparr>, [CallD1 ''nocard''])"
proof -
  have k: "presentedKey (get ''/works/W1/best_oa_location/pdf'' [(''api_key'', ''nocard'')])
             = Some ''nocard''"
    by (simp add: presentedKey_def get_def searchParams_get_def)
  have d: "d1_first demo ''nocard''
             = Returns (Some \<lparr>credit_card_on_file = Some 0, expires_at = None\<rparr>)"
    by (simp add: demo_def)
  from checkApiKey_no_expiry [OF k _ d] k d show ?thesis
    by (simp add: Boolean_def)
qed

text \<open>
  Claim C6, as amended. A presented key whose stored record carries an expiry timestamp that
  the platform parses to a time not after the current time is refused: \<open>checkApiKey\<close> returns
  \<open>valid = False\<close> with the message \<^verbatim>\<open>API key expired on <timestamp>\<close>, and the handler answers
  401. In metadata mode the body carries that message in its field \<^verbatim>\<open>message\<close>; in text mode the
  body is the text \<^verbatim>\<open>Invalid or missing API key\<close> alone.
\<close>

theorem expired_key_401:
  assumes "req_method req = ''GET''"
    and "pathParts req = [''works'', rawId, ''best_oa_location'', kind]"
    and "kind = ''pdf'' \<or> kind = ''parsed-pdf''"
    and "normalizeWorkId (URL_pathname w) rawId = Some workId"
    and "presentedKey req = Some k" and "k \<noteq> []"
    and "d1_first w k = Returns (Some row)"
    and "expires_at row = Some e" and "e \<noteq> []"
    and "Date_parse w e = Some t" and "t \<le> now w"
  shows "fst (checkApiKey w req) =
           \<lparr>valid = False, hasCreditCard = False, error = Some (''API key expired on '' @ e)\<rparr>
         \<and> fst (fetch w req) =
             Response (if wantsJson req
                       then json 401 [(''error'', JStr ''Invalid or missing API key''),
                                      (''message'', JStr (''API key expired on '' @ e))]
                       else plain 401 ''Invalid or missing API key'')"
proof -
  have a: "fst (checkApiKey w req) =
             \<lparr>valid = False, hasCreditCard = False, error = Some (''API key expired on '' @ e)\<rparr>"
    using checkApiKey_expired [OF assms(5-11)] by simp
  have ne: "workId \<noteq> []"
    using normalizeWorkId_canonical [OF assms(4)] by (auto simp: canonical_def)
  have "fst (fetch w req) = fst (gate w req (wantsJson req)
          (catalog w req (kind = ''parsed-pdf'') (wantsJson req) rawId workId))"
    using assms(1-4) ne by (auto simp: fetch_def Let_def)
  also have "\<dots> = Response (jsonOrText (wantsJson req) 401
          [(''error'', JStr ''Invalid or missing API key''),
           (''message'', JStr (''API key expired on '' @ e))])"
    by (rule gate_invalid [OF a]) simp
  finally show ?thesis
    using a by (simp add: jsonOrText_def plain_def)
qed

theorem expired_key_401_witness:
  "fst (checkApiKey demo (get ''/works/W1/best_oa_location/pdf''
                            [(''api_key'', ''old''), (''json'', ''true'')])) =
     \<lparr>valid = False, hasCreditCard = False, error = Some ''API key expired on 2020-01-01''\<rparr>
   \<and> fst (fetch demo (get ''/works/W1/best_oa_location/pdf''
                        [(''api_key'', ''old''), (''json'', ''true'')])) =
       Response (json 401 [(''error'', JStr ''Invalid or missing API key''),
                           (''message'', JStr ''API key expired on 2020-01-01'')])"
proof -
  let ?req = "get ''/works/W1/best_oa_location/pdf'' [(''api_key'', ''old''), (''json'', ''true'')]"
  have m: "req_method ?req = ''GET''"
    by (simp add: get_def)
  have p: "pathParts ?req = [''works'', ''W1'', ''best_oa_location'', ''pdf'']"
    by (simp add: pathParts_def get_def)
  have n: "normalizeWorkId (URL_pathname demo) ''W1'' = Some ''W1''"
    by (simp add: normalizeWorkId_def string_defs)
  have k: "presentedKey ?req = Some ''old''"
    by (simp add: presentedKey_def get_def searchParams_get_def)
  have d: "d1_first demo ''old''
             = Returns (Some \<lparr>credit_card_on_file = Some 1, expires_at = Some ''2020-01-01''\<rparr>)"
    by (simp add: demo_def)
  have t: "Date_parse demo ''2020-01-01'' = Some 1577836800000"
    by (simp add: demo_def)
  have j: "wantsJson ?req"
    by (simp add: wantsJson_def get_def string_defs)
  have "1577836800000 \<le> now demo"
    by (simp add: demo_def)
  from expired_key_401 [OF m p _ n k _ d _ _ t this] j show ?thesis
    by simp
qed

theorem expired_key_text_mode_counterexample:
  "fst (checkApiKey demo (get ''/works/W1/best_oa_location/pdf'' [(''api_key'', ''old'')])) =
     \<lparr>valid = False, hasCreditCard = False, error = Some ''API key expired on 2020-01-01''\<rparr>
   \<and> fst (fetch demo (get ''/works/W1/best_oa_location/pdf'' [(''api_key'', ''old'')])) =
       Response (plain 401 ''Invalid or missing API key'')
   \<and> \<not> str_includes ''Invalid or missing API key'' ''2020-01-01''"
  by (simp add: handler_defs stage_defs string_defs demo_defs)

section \<open>Error responses in text mode\<close>

text \<open>
  Claim C9, as amended. Outside metadata mode, an error object is degraded to its field
  \<^verbatim>\<open>error\<close> alone: the response is the plain text of that field, with the status of the error.
  A field \<^verbatim>\<open>message\<close> of the object, which the objects of the statuses 401 and 403 have, is
  not part of the body.
\<close>

theorem jsonOrText_text_mode:
  "map_of obj ''error'' = Some e \<Longrightarrow> jtruthy e \<Longrightarrow> jsonOrText False st obj = plain st (String e)"
  by (simp add: jsonOrText_def plain_def)

theorem jsonOrText_text_mode_witness:
  "map_of [(''error'', JStr ''Invalid work id''), (''work_id_input'', JStr ''x'')] ''error''
     = Some (JStr ''Invalid work id'')
   \<and> jtruthy (JStr ''Invalid work id'')
   \<and> jsonOrText False 400 [(''error'', JStr ''Invalid work id''), (''work_id_input'', JStr ''x'')]
     = plain 400 ''Invalid work id''"
proof -
  have a: "map_of [(''error'', JStr ''Invalid work id''), (''work_id_input'', JStr ''x'')] ''error''
             = Some (JStr ''Invalid work id'')"
    by simp
  have b: "jtruthy (JStr ''Invalid work id'')"
    by simp
  from jsonOrText_text_mode [OF a b, of 400] a b show ?thesis
    by simp
qed

theorem message_field_dropped_counterexample:
  "fst (fetch demo (get ''/works/W1/best_oa_location/pdf'' [(''api_key'', ''nocard'')])) =
     Response (jsonOrText False 403
       [(''error'', JStr ''Payment required''),
        (''message'', JStr ''A credit card on file is required to download files'')])
   \<and> body (jsonOrText False 403
       [(''error'', JStr ''Payment required''),
        (''message'', JStr ''A credit card on file is required to download files'')])
     = Text ''Payment required''
   \<and> Text ''Payment required'' \<noteq> Text ''A credit card on file is required to download files''"
  by (simp add: handler_defs stage_defs string_defs demo_defs)

section \<open>The location reference\<close>

lemma indexOf_colon:
  "indexOf s (CHR '':'') = (if CHR '':'' \<in> set s then int (firstColon s) else - 1)"
  by (simp add: indexOf_def firstColon_def)

lemma firstColon_less: "CHR '':'' \<in> set s \<Longrightarrow> firstColon s < length s"
  by (induction s) (auto simp: firstColon_def)

lemma splitLocationId_None_iff: "splitLocationId s = None \<longleftrightarrow> malformed s"
proof (cases "CHR '':'' \<in> set s")
  case True
  then have "firstColon s < length s"
    by (rule firstColon_less)
  with True show ?thesis
    by (auto simp: splitLocationId_def indexOf_colon malformed_def Let_def)
next
  case False
  then show ?thesis
    by (simp add: splitLocationId_def indexOf_colon malformed_def)
qed

lemma splitLocationId_wellformed:
  "\<not> malformed s \<Longrightarrow>
     splitLocationId s = Some (take (firstColon s) s, drop (firstColon s + 1) s)"
  by (auto simp: splitLocationId_def indexOf_colon malformed_def Let_def nat_add_distrib)

lemma split_rejoin:
  assumes "splitLocationId s = Some (scheme, nativeId)"
  shows "scheme @ CHR '':'' # nativeId = s \<and> scheme \<noteq> [] \<and> nativeId \<noteq> []
         \<and> CHR '':'' \<notin> set scheme"
proof -
  from assms have wf: "\<not> malformed s"
    using splitLocationId_None_iff [of s] by simp
  then have c: "CHR '':'' \<in> set s" and z: "firstColon s \<noteq> 0" and l: "firstColon s + 1 \<noteq> length s"
    by (auto simp: malformed_def)
  from c have lt: "firstColon s < length s"
    by (rule firstColon_less)
  from wf assms have sch: "scheme = take (firstColon s) s"
    and nat: "nativeId = drop (firstColon s + 1) s"
    by (simp_all add: splitLocationId_wellformed)
  have tw: "take (firstColon s) s = takeWhile (\<lambda>c. c \<noteq> CHR '':'') s"
    unfolding firstColon_def by (rule takeWhile_eq_take [symmetric])
  have dw: "drop (firstColon s) s = dropWhile (\<lambda>c. c \<noteq> CHR '':'') s"
    unfolding firstColon_def by (rule dropWhile_eq_drop [symmetric])
  from c have "dropWhile (\<lambda>c. c \<noteq> CHR '':'') s \<noteq> []"
    by simp
  then have "hd (dropWhile (\<lambda>c. c \<noteq> CHR '':'') s) = CHR '':''"
    using hd_dropWhile [of "\<lambda>c. c \<noteq> CHR '':''" s] by simp
  with dw lt have at: "s ! firstColon s = CHR '':''"
    by (metis hd_drop_conv_nth)
  have "s = take (firstColon s) s @ s ! firstColon s # drop (Suc (firstColon s)) s"
    using lt by (rule id_take_nth_drop)
  with at sch nat have j: "scheme @ CHR '':'' # nativeId = s"
    by simp
  have "CHR '':'' \<notin> set scheme"
    unfolding sch tw by (auto dest: set_takeWhileD)
  moreover have "scheme \<noteq> []"
    using z lt by (auto simp: sch)
  moreover have "nativeId \<noteq> []"
    using l lt by (simp add: nat)
  ultimately show ?thesis
    using j by simp
qed

section \<open>Statuses and calls of the later steps\<close>

lemma download_status:
  "fst (download w g rawId workId uuid) = Response r \<Longrightarrow> status r = 200 \<or> status r = 404"
  by (auto simp: download_def after_def plain_def Let_def
      split: option.splits completion.splits if_splits prod.splits)

lemma metadata_status:
  "fst (metadata w req g rawId workId locId scheme nativeId uuid found) = Response r
     \<Longrightarrow> status r = 200"
  by (auto simp: metadata_def json_def Let_def
      split: option.splits completion.splits if_splits prod.splits)

lemma lookup_status:
  "fst (lookup w req g j rawId workId locId scheme nativeId) = Response r
     \<Longrightarrow> status r = 200 \<or> status r = 404 \<or> status r = 500"
  by (auto simp: lookup_def after_def Let_def jsonOrText_def json_def
      dest: download_status metadata_status split: completion.splits if_splits)

lemma lookup_calls_index:
  "\<exists>rest. snd (lookup w req g j rawId workId locId scheme nativeId)
            = CallDynamo (tableName g) nativeId # rest"
  by (simp add: lookup_def after_def Let_def split: completion.splits)

lemma fetch_past_gate:
  assumes "req_method req = ''GET''"
    and "pathParts req = [''works'', rawId, ''best_oa_location'', kind]"
    and "kind = ''pdf'' \<or> kind = ''parsed-pdf''"
    and "normalizeWorkId (URL_pathname w) rawId = Some workId"
    and "valid (fst (checkApiKey w req))" and "hasCreditCard (fst (checkApiKey w req))"
  shows "fetch w req = after (snd (checkApiKey w req))
           (catalog w req (kind = ''parsed-pdf'') (wantsJson req) rawId workId)"
proof -
  have ne: "workId \<noteq> []"
    using normalizeWorkId_canonical [OF assms(4)] by (auto simp: canonical_def)
  have "fetch w req = gate w req (wantsJson req)
          (catalog w req (kind = ''parsed-pdf'') (wantsJson req) rawId workId)"
    using assms(1-4) ne by (auto simp: fetch_def Let_def)
  then show ?thesis
    using assms(5,6) by (cases "checkApiKey w req") (simp add: gate_def)
qed

lemma catalog_located:
  assumes "http_fetch w (openAlexEndpoint workId) = Body (Some work)"
    and "best_oa_location work = Some loc" and "location_id loc = Some locId"
  shows "catalog w req g j rawId workId =
           (case splitLocationId locId of
              None \<Rightarrow>
                (Response (jsonOrText j 502
                   [(''error'', JStr ''Unrecognized best_oa_location.id format''),
                    (''work_id'', JStr workId),
                    (''best_oa_location_id'', JStr locId)]),
                 [CallOpenAlex (openAlexEndpoint workId)])
            | Some (scheme, nativeId) \<Rightarrow>
                after [CallOpenAlex (openAlexEndpoint workId)]
                  (lookup w req g j rawId (Some workId) (Some locId) scheme nativeId))"
  using assms by (simp add: catalog_def fetchOpenAlexWork_def Let_def split: option.splits)

text \<open>
  Claim C3. Where the catalog answers a work whose \<^verbatim>\<open>best_oa_location.id\<close> is the text
  \<open>locId\<close>, the handler answers 502 (with the error \<^verbatim>\<open>Unrecognized best_oa_location.id format\<close>)
  if and only if \<open>locId\<close> is malformed: it has no colon, or a colon at position 0, or its first
  colon is its last character. A well-formed text is split at its first colon, into the scheme
  before it and the native id after it, and the index is queried for that native id.
\<close>

theorem malformed_reference_502:
  assumes "req_method req = ''GET''"
    and "pathParts req = [''works'', rawId, ''best_oa_location'', kind]"
    and "kind = ''pdf'' \<or> kind = ''parsed-pdf''"
    and "normalizeWorkId (URL_pathname w) rawId = Some workId"
    and "valid (fst (checkApiKey w req))" and "hasCreditCard (fst (checkApiKey w req))"
    and "http_fetch w (openAlexEndpoint workId) = Body (Some work)"
    and "best_oa_location work = Some loc" and "location_id loc = Some locId"
  shows "(malformed locId \<longrightarrow>
            fst (fetch w req) = Response (jsonOrText (wantsJson req) 502
              [(''error'', JStr ''Unrecognized best_oa_location.id format''),
               (''work_id'', JStr workId),
               (''best_oa_location_id'', JStr locId)]))
         \<and> (\<not> malformed locId \<longrightarrow>
              (\<forall>r. fst (fetch w req) = Response r \<longrightarrow> status r \<noteq> 502)
              \<and> splitLocationId locId
                  = Some (take (firstColon locId) locId, drop (firstColon locId + 1) locId)
              \<and> CallDynamo (tableName (kind = ''parsed-pdf'')) (drop (firstColon locId + 1) locId)
                  \<in> set (snd (fetch w req)))"
proof (intro conjI impI)
  note f = fetch_past_gate [OF assms(1-6)] catalog_located [OF assms(7-9)]
  {
    assume "malformed locId"
    then have "splitLocationId locId = None"
      by (simp add: splitLocationId_None_iff)
    then show "fst (fetch w req) = Response (jsonOrText (wantsJson req) 502
              [(''error'', JStr ''Unrecognized best_oa_location.id format''),
               (''work_id'', JStr workId),
               (''best_oa_location_id'', JStr locId)])"
      by (simp add: f after_def)
  }
  {
    assume wf: "\<not> malformed locId"
    then show s: "splitLocationId locId
           = Some (take (firstColon locId) locId, drop (firstColon locId + 1) locId)"
      by (rule splitLocationId_wellformed)
    show "\<forall>r. fst (fetch w req) = Response r \<longrightarrow> status r \<noteq> 502"
      using lookup_status by (fastforce simp: f s after_def)
    show "CallDynamo (tableName (kind = ''parsed-pdf'')) (drop (firstColon locId + 1) locId)
            \<in> set (snd (fetch w req))"
      using lookup_calls_index [of w req "kind = ''parsed-pdf''" "wantsJson req" rawId
          "Some workId" "Some locId" "take (firstColon locId) locId"
          "drop (firstColon locId + 1) locId"]
      by (auto simp: f s after_def)
  }
qed

lemma demo_good_key:
  "fst (checkApiKey demo (get path ((''api_key'', ''good'') # params)))
     = \<lparr>valid = True, hasCreditCard = True, error = None\<rparr>"
  by (simp add: checkApiKey_def presentedKey_def searchParams_get_def Boolean_def demo_defs)

lemma demo_normalize:
  "normalizeWorkId (URL_pathname demo) ''W1'' = Some ''W1''"
  "normalizeWorkId (URL_pathname demo) ''W2'' = Some ''W2''"
  "normalizeWorkId (URL_pathname demo) ''w12345'' = Some ''W12345''"
  by (simp_all add: normalizeWorkId_def string_defs)

theorem malformed_reference_502_witness:
  "malformed ''doi:''
   \<and> fst (fetch demo (get ''/works/W2/best_oa_location/pdf'' [(''api_key'', ''good'')]))
       = Response (plain 502 ''Unrecognized best_oa_location.id format'')
   \<and> \<not> malformed ''doi:10.1/abc''
   \<and> splitLocationId ''doi:10.1/abc'' = Some (''doi'', ''10.1/abc'')
   \<and> CallDynamo ''harvested-pdf'' ''10.1/abc''
       \<in> set (snd (fetch demo (get ''/works/W1/best_oa_location/pdf'' [(''api_key'', ''good'')])))"
proof -
  let ?r1 = "get ''/works/W1/best_oa_location/pdf'' [(''api_key'', ''good'')]"
  let ?r2 = "get ''/works/W2/best_oa_location/pdf'' [(''api_key'', ''good'')]"
  have p1: "pathParts ?r1 = [''works'', ''W1'', ''best_oa_location'', ''pdf'']"
    and p2: "pathParts ?r2 = [''works'', ''W2'', ''best_oa_location'', ''pdf'']"
    by (simp_all add: pathParts_def get_def)
  have m: "req_method ?r1 = ''GET''" "req_method ?r2 = ''GET''"
    by (simp_all add: get_def)
  have t: "\<not> wantsJson ?r1" "\<not> wantsJson ?r2"
    by (simp_all add: wantsJson_def get_def string_defs)
  have c1: "http_fetch demo (openAlexEndpoint ''W1'')
      = Body (Some \<lparr>best_oa_location = Some \<lparr>location_id = Some ''doi:10.1/abc''\<rparr>\<rparr>)"
    by (simp add: demo_def)
  have c2: "http_fetch demo (openAlexEndpoint ''W2'')
      = Body (Some \<lparr>best_oa_location = Some \<lparr>location_id = Some ''doi:''\<rparr>\<rparr>)"
    by (simp add: demo_def openAlexEndpoint_def string_defs)
  have bad: "malformed ''doi:''" and good: "\<not> malformed ''doi:10.1/abc''"
    by (simp_all add: malformed_def firstColon_def)
  have v1: "valid (fst (checkApiKey demo ?r1))" "hasCreditCard (fst (checkApiKey demo ?r1))"
    and v2: "valid (fst (checkApiKey demo ?r2))" "hasCreditCard (fst (checkApiKey demo ?r2))"
    by (simp_all add: demo_good_key)
  have k: "''pdf'' = ''pdf'' \<or> ''pdf'' = ''parsed-pdf''"
    by simp
  have b1: "best_oa_location \<lparr>best_oa_location = Some \<lparr>location_id = Some ''doi:10.1/abc''\<rparr>\<rparr>
              = Some \<lparr>location_id = Some ''doi:10.1/abc''\<rparr>"
    and b2: "best_oa_location \<lparr>best_oa_location = Some \<lparr>location_id = Some ''doi:''\<rparr>\<rparr>
              = Some \<lparr>location_id = Some ''doi:''\<rparr>"
    and l1: "location_id \<lparr>location_id = Some ''doi:10.1/abc''\<rparr> = Some ''doi:10.1/abc''"
    and l2: "location_id \<lparr>location_id = Some ''doi:''\<rparr> = Some ''doi:''"
    by simp_all
  have f1: "firstColon ''doi:10.1/abc'' = 3"
    by (simp add: firstColon_def)
  from malformed_reference_502 [OF m(2) p2 k demo_normalize(2) v2 c2 b2 l2] bad t(2)
  have w2: "fst (fetch demo ?r2) = Response (plain 502 ''Unrecognized best_oa_location.id format'')"
    by (simp add: jsonOrText_def plain_def)
  from malformed_reference_502 [OF m(1) p1 k demo_normalize(1) v1 c1 b1 l1] good
  have w1: "splitLocationId ''doi:10.1/abc'' = Some (''doi'', ''10.1/abc'')
            \<and> CallDynamo ''harvested-pdf'' ''10.1/abc'' \<in> set (snd (fetch demo ?r1))"
    by (simp add: tableName_def f1)
  from w1 w2 bad good show ?thesis
    by simp
qed

section \<open>The index lookup and the tiers\<close>

lemma fetch_located:
  assumes "req_method req = ''GET''"
    and "pathParts req = [''works'', rawId, ''best_oa_location'', kind]"
    and "kind = ''pdf'' \<or> kind = ''parsed-pdf''"
    and "normalizeWorkId (URL_pathname w) rawId = Some workId"
    and "valid (fst (checkApiKey w req))" and "hasCreditCard (fst (checkApiKey w req))"
    and "http_fetch w (openAlexEndpoint workId) = Body (Some work)"
    and "best_oa_location work = Some loc" and "location_id loc = Some locId"
    and "splitLocationId locId = Some (scheme, nativeId)"
  shows "fetch w req =
           after (snd (checkApiKey w req) @ [CallOpenAlex (openAlexEndpoint workId)])
             (lookup w req (kind = ''parsed-pdf'') (wantsJson req) rawId (Some workId)
                (Some locId) scheme nativeId)"
  by (simp add: fetch_past_gate [OF assms(1-6)] catalog_located [OF assms(7-9)] assms(10)
      after_def)

text \<open>
  Claim C4. Where the index has no entry for the native id, the handler in metadata mode
  answers 200 all the same, with \<^verbatim>\<open>mapping_found_in_dynamodb\<close> false and with \<^verbatim>\<open>file_uuid\<close>,
  \<^verbatim>\<open>file_key\<close> and \<^verbatim>\<open>download_url\<close> null; it probes no tier.
\<close>

theorem no_index_entry_metadata_200:
  assumes "req_method req = ''GET''"
    and "pathParts req = [''works'', rawId, ''best_oa_location'', kind]"
    and "kind = ''pdf'' \<or> kind = ''parsed-pdf''"
    and "normalizeWorkId (URL_pathname w) rawId = Some workId"
    and "valid (fst (checkApiKey w req))" and "hasCreditCard (fst (checkApiKey w req))"
    and "http_fetch w (openAlexEndpoint workId) = Body (Some work)"
    and "best_oa_location work = Some loc" and "location_id loc = Some locId"
    and "splitLocationId locId = Some (scheme, nativeId)"
    and "wantsJson req"
    and "dynamo_send w (tableName (kind = ''parsed-pdf'')) nativeId = Returns Items"
    and "Items = None \<or> Items = Some []"
  shows "fetch w req =
           (Response (json 200
              [(''work_id'', JStr rawId),
               (''work_api'', JStr (''https://api.openalex.org/works/'' @ workId
                                     @ ''?data-version=2'')),
               (''best_oa_location_id'', JStr locId),
               (''native_id'', JStr nativeId),
               (''native_id_namespace'', JStr scheme),
               (''mapping_found_in_dynamodb'', JBool False),
               (''file_uuid'', JNull),
               (''file_key'', JNull),
               (''in_r2'', JBool False),
               (''in_s3'', JBool False),
               (''download_url'', JNull)]),
            snd (checkApiKey w req)
              @ [CallOpenAlex (openAlexEndpoint workId),
                 CallDynamo (tableName (kind = ''parsed-pdf'')) nativeId])"
proof -
  have ne: "workId \<noteq> []"
    using normalizeWorkId_canonical [OF assms(4)] by (auto simp: canonical_def)
  have "lookup w req (kind = ''parsed-pdf'') True rawId (Some workId) (Some locId) scheme nativeId
          = (Response (json 200
              [(''work_id'', JStr rawId),
               (''work_api'', JStr (''https://api.openalex.org/works/'' @ workId
                                     @ ''?data-version=2'')),
               (''best_oa_location_id'', JStr locId),
               (''native_id'', JStr nativeId),
               (''native_id_namespace'', JStr scheme),
               (''mapping_found_in_dynamodb'', JBool False),
               (''file_uuid'', JNull),
               (''file_key'', JNull),
               (''in_r2'', JBool False),
               (''in_s3'', JBool False),
               (''download_url'', JNull)]),
             [CallDynamo (tableName (kind = ''parsed-pdf'')) nativeId])"
    using assms(12,13) ne
    by (auto simp: lookup_def metadata_def after_def Let_def orNull_def nullable_def)
  then show ?thesis
    using assms(11) by (simp add: fetch_located [OF assms(1-10)] after_def)
qed

theorem no_index_entry_metadata_200_witness:
  "fetch demo (get ''/works/w12345/best_oa_location/pdf'' [(''api_key'', ''good''), (''json'', ''true'')])
     = (Response (json 200
          [(''work_id'', JStr ''w12345''),
           (''work_api'', JStr ''https://api.openalex.org/works/W12345?data-version=2''),
           (''best_oa_location_id'', JStr ''doi:10.9/none''),
           (''native_id'', JStr ''10.9/none''),
           (''native_id_namespace'', JStr ''doi''),
           (''mapping_found_in_dynamodb'', JBool False),
           (''file_uuid'', JNull),
           (''file_key'', JNull),
           (''in_r2'', JBool False),
           (''in_s3'', JBool False),
           (''download_url'', JNull)]),
        [CallD1 ''good'',
         CallOpenAlex
           ''https://api.openalex.org/works/W12345?data-version=2&select=id,best_oa_location'',
         CallDynamo ''harvested-pdf'' ''10.9/none''])"
proof -
  let ?r = "get ''/works/w12345/best_oa_location/pdf'' [(''api_key'', ''good''), (''json'', ''true'')]"
  have p: "pathParts ?r = [''works'', ''w12345'', ''best_oa_location'', ''pdf'']"
    by (simp add: pathParts_def get_def)
  have m: "req_method ?r = ''GET''"
    by (simp add: get_def)
  have k: "''pdf'' = ''pdf'' \<or> ''pdf'' = ''parsed-pdf''"
    by simp
  have j: "wantsJson ?r"
    by (simp add: wantsJson_def get_def string_defs)
  have c: "http_fetch demo (openAlexEndpoint ''W12345'')
      = Body (Some \<lparr>best_oa_location = Some \<lparr>location_id = Some ''doi:10.9/none''\<rparr>\<rparr>)"
    by (simp add: demo_def openAlexEndpoint_def string_defs)
  have b: "best_oa_location \<lparr>best_oa_location = Some \<lparr>location_id = Some ''doi:10.9/none''\<rparr>\<rparr>
             = Some \<lparr>location_id = Some ''doi:10.9/none''\<rparr>"
    and l: "location_id \<lparr>location_id = Some ''doi:10.9/none''\<rparr> = Some ''doi:10.9/none''"
    by simp_all
  have s: "splitLocationId ''doi:10.9/none'' = Some (''doi'', ''10.9/none'')"
    by (simp add: splitLocationId_def indexOf_def)
  have d: "dynamo_send demo (tableName (''pdf'' = ''parsed-pdf'')) ''10.9/none'' = Returns (Some [])"
    by (simp add: demo_def)
  have e: "Some [] = None \<or> Some ([] :: dynamo_item list) = Some []"
    by simp
  have v: "valid (fst (checkApiKey demo ?r))" "hasCreditCard (fst (checkApiKey demo ?r))"
    by (simp_all add: demo_good_key)
  have a: "snd (checkApiKey demo ?r) = [CallD1 ''good'']"
    by (simp add: checkApiKey_def presentedKey_def searchParams_get_def demo_defs)
  have o: "openAlexEndpoint ''W12345''
             = ''https://api.openalex.org/works/W12345?data-version=2&select=id,best_oa_location''"
    by (simp add: openAlexEndpoint_def string_defs)
  from no_index_entry_metadata_200 [OF m p k demo_normalize(3) v c b l s j d e]
  show ?thesis
    by (simp add: a o tableName_def)
qed

lemma checkApiKey_calls_no_tier:
  "CallS3 m x \<notin> set (snd (checkApiKey w req))"
  by (auto simp: checkApiKey_def split: option.splits completion.splits if_splits)

lemma s3GetObject_calls:
  "\<exists>rest. snd (s3GetObject w bucket key) = CallS3 ''GET'' (s3Url w bucket key) # rest"
  by (simp add: s3GetObject_def Let_def split: completion.splits)

lemma download_hit:
  assumes "u \<noteq> []" and "r2_get w (r2Bucket g) (u @ fileExt g) = Returns (Some obj)"
  shows "download w g rawId workId (Some u) =
           (Response \<lparr>status = 200, body = FromR2 (r2_body obj),
              headers = (httpMetadata obj)
                (''content-type'' \<mapsto> contentType g,
                 ''content-disposition'' \<mapsto> contentDisposition (safeName g workId rawId),
                 ''cache-control'' \<mapsto> ''private, no-store'')\<rparr>,
            [CallR2Get (r2Bucket g) (u @ fileExt g)])"
  using assms by (simp add: download_def Let_def)

lemma download_calls:
  assumes "u \<noteq> []"
  shows "snd (download w g rawId workId (Some u)) =
           CallR2Get (r2Bucket g) (u @ fileExt g)
             # (if r2_get w (r2Bucket g) (u @ fileExt g) = Returns None
                then snd (s3GetObject w (s3Bucket g) (u @ fileExt g)) else [])"
  using assms
  by (auto simp: download_def after_def Let_def
      split: completion.splits option.splits prod.splits)

text \<open>
  Claim C2. In stream mode, once the index maps the native id to a uuid, the handler calls
  the primary tier (\<^verbatim>\<open>r2Bucket.get\<close>) for the derived key, and no request to the backup tier
  comes before that call. Where the primary tier returns an object, that call is the last one:
  the response is 200 with the body of the object, and the backup tier is never called. Where
  the primary tier returns null, the signed GET to the backup tier follows.
\<close>

theorem primary_before_backup:
  assumes "req_method req = ''GET''"
    and "pathParts req = [''works'', rawId, ''best_oa_location'', kind]"
    and "kind = ''pdf'' \<or> kind = ''parsed-pdf''"
    and "normalizeWorkId (URL_pathname w) rawId = Some workId"
    and "valid (fst (checkApiKey w req))" and "hasCreditCard (fst (checkApiKey w req))"
    and "http_fetch w (openAlexEndpoint workId) = Body (Some work)"
    and "best_oa_location work = Some loc" and "location_id loc = Some locId"
    and "splitLocationId locId = Some (scheme, nativeId)"
    and "\<not> wantsJson req"
    and "dynamo_send w (tableName (kind = ''parsed-pdf'')) nativeId = Returns (Some (item # items))"
    and "item_id item = Some u" and "u \<noteq> []"
    and "g = (kind = ''parsed-pdf'')"
  shows "\<exists>pre post.
           snd (fetch w req) = pre @ CallR2Get (r2Bucket g) (u @ fileExt g) # post
           \<and> (\<forall>m x. CallS3 m x \<notin> set pre)
           \<and> (\<forall>obj. r2_get w (r2Bucket g) (u @ fileExt g) = Returns (Some obj) \<longrightarrow>
                 post = []
                 \<and> (\<forall>m x. CallS3 m x \<notin> set (snd (fetch w req)))
                 \<and> (\<exists>r. fst (fetch w req) = Response r \<and> status r = 200
                          \<and> body r = FromR2 (r2_body obj)))
           \<and> (r2_get w (r2Bucket g) (u @ fileExt g) = Returns None \<longrightarrow>
                 (\<exists>rest. post = CallS3 ''GET'' (s3Url w (s3Bucket g) (u @ fileExt g)) # rest))"
proof -
  let ?key = "u @ fileExt g"
  let ?pre = "snd (checkApiKey w req)
                @ [CallOpenAlex (openAlexEndpoint workId), CallDynamo (tableName g) nativeId]"
  let ?post = "if r2_get w (r2Bucket g) ?key = Returns None
               then snd (s3GetObject w (s3Bucket g) ?key) else []"
  have l: "lookup w req g False rawId (Some workId) (Some locId) scheme nativeId
             = after [CallDynamo (tableName g) nativeId] (download w g rawId (Some workId) (Some u))"
    using assms(12,13,15) by (simp add: lookup_def Let_def)
  have f: "fetch w req = after ?pre (download w g rawId (Some workId) (Some u))"
    using assms(11,15) l by (simp add: fetch_located [OF assms(1-10)] after_def)
  have tr: "snd (fetch w req) = ?pre @ CallR2Get (r2Bucket g) ?key # ?post"
    by (simp add: f after_def download_calls [OF assms(14)])
  have pre: "\<forall>m x. CallS3 m x \<notin> set ?pre"
    by (simp add: checkApiKey_calls_no_tier)
  have h1: "?post = []"
    if "r2_get w (r2Bucket g) ?key = Returns (Some obj)" for obj
    using that by simp
  have h2: "CallS3 m x \<notin> set (snd (fetch w req))"
    if "r2_get w (r2Bucket g) ?key = Returns (Some obj)" for obj m x
    using that pre by (simp add: f after_def download_hit [OF assms(14)])
  have h3: "\<exists>r. fst (fetch w req) = Response r \<and> status r = 200
                  \<and> body r = FromR2 (r2_body obj)"
    if "r2_get w (r2Bucket g) ?key = Returns (Some obj)" for obj
    using that by (simp add: f after_def download_hit [OF assms(14)])
  have miss: "\<exists>rest. ?post = CallS3 ''GET'' (s3Url w (s3Bucket g) ?key) # rest"
    if "r2_get w (r2Bucket g) ?key = Returns None"
    using that s3GetObject_calls [of w "s3Bucket g" ?key] by simp
  show ?thesis
    apply (rule exI [of _ ?pre])
    apply (rule exI [of _ ?post])
    apply (intro conjI allI impI)
         apply (rule tr)
        apply (simp add: checkApiKey_calls_no_tier)
       apply (erule h1)
      apply (erule h2)
     apply (erule h3)
    apply (erule miss)
    done
qed

theorem primary_before_backup_witness:
  "snd (fetch demo (get ''/works/W1/best_oa_location/pdf'' [(''api_key'', ''good'')]))
     = [CallD1 ''good'',
        CallOpenAlex ''https://api.openalex.org/works/W1?data-version=2&select=id,best_oa_location'',
        CallDynamo ''harvested-pdf'' ''10.1/abc'',
        CallR2Get PDFS ''u1.pdf'']
   \<and> CallS3 ''GET'' (s3Url demo (s3Bucket False) ''u1.pdf'')
       \<notin> set (snd (fetch demo (get ''/works/W1/best_oa_location/pdf'' [(''api_key'', ''good'')])))
   \<and> r2_get demo PDFS ''u1.pdf'' = Returns (Some \<lparr>r2_body = ''%PDF'', httpMetadata = Map.empty\<rparr>)"
proof -
  let ?r = "get ''/works/W1/best_oa_location/pdf'' [(''api_key'', ''good'')]"
  have p: "pathParts ?r = [''works'', ''W1'', ''best_oa_location'', ''pdf'']"
    by (simp add: pathParts_def get_def)
  have m: "req_method ?r = ''GET''"
    by (simp add: get_def)
  have k: "''pdf'' = ''pdf'' \<or> ''pdf'' = ''parsed-pdf''"
    by simp
  have j: "\<not> wantsJson ?r"
    by (simp add: wantsJson_def get_def string_defs)
  have c: "http_fetch demo (openAlexEndpoint ''W1'')
      = Body (Some \<lparr>best_oa_location = Some \<lparr>location_id = Some ''doi:10.1/abc''\<rparr>\<rparr>)"
    by (simp add: demo_def)
  have b: "best_oa_location \<lparr>best_oa_location = Some \<lparr>location_id = Some ''doi:10.1/abc''\<rparr>\<rparr>
             = Some \<lparr>location_id = Some ''doi:10.1/abc''\<rparr>"
    and l: "location_id \<lparr>location_id = Some ''doi:10.1/abc''\<rparr> = Some ''doi:10.1/abc''"
    by simp_all
  have s: "splitLocationId ''doi:10.1/abc'' = Some (''doi'', ''10.1/abc'')"
    by (simp add: splitLocationId_def indexOf_def)
  have d: "dynamo_send demo (tableName (''pdf'' = ''parsed-pdf'')) ''10.1/abc''
             = Returns (Some [\<lparr>item_id = Some ''u1''\<rparr>])"
    by (simp add: demo_def)
  have i: "item_id \<lparr>item_id = Some ''u1''\<rparr> = Some ''u1''" and n: "''u1'' \<noteq> []"
    by simp_all
  have g: "False = (''pdf'' = ''parsed-pdf'')"
    by simp
  have v: "valid (fst (checkApiKey demo ?r))" "hasCreditCard (fst (checkApiKey demo ?r))"
    by (simp_all add: demo_good_key)
  have o: "r2_get demo (r2Bucket False) (''u1'' @ fileExt False)
             = Returns (Some \<lparr>r2_body = ''%PDF'', httpMetadata = Map.empty\<rparr>)"
    by (simp add: demo_def r2Bucket_def fileExt_def)
  have t: "snd (fetch demo ?r)
     = [CallD1 ''good'',
        CallOpenAlex ''https://api.openalex.org/works/W1?data-version=2&select=id,best_oa_location'',
        CallDynamo ''harvested-pdf'' ''10.1/abc'',
        CallR2Get PDFS ''u1.pdf'']"
    by (simp add: handler_defs stage_defs string_defs demo_defs)
  from primary_before_backup [OF m p k demo_normalize(1) v c b l s j d i n g] o t
  show ?thesis
    by (simp add: r2Bucket_def fileExt_def)
qed

section \<open>The file name of a streamed artifact\<close>

lemma status_jsonOrText: "status (jsonOrText j st obj) = st"
  by (simp add: jsonOrText_def json_def)

lemma status_plain: "status (plain st text) = st"
  by (simp add: plain_def)

lemma download_success_name:
  assumes "fst (download w g rawId workId uuid) = Response r" and "status r = 200"
  shows "headers r ''content-disposition'' = Some (contentDisposition (safeName g workId rawId))"
  using assms
  by (auto simp: download_def after_def plain_def Let_def
      split: option.splits completion.splits if_splits prod.splits)

lemma lookup_success_name:
  assumes "fst (lookup w req g False rawId workId locId scheme nativeId) = Response r"
    and "status r = 200"
  shows "headers r ''content-disposition'' = Some (contentDisposition (safeName g workId rawId))"
  using assms
  by (auto simp: lookup_def after_def Let_def status_jsonOrText
      dest: download_success_name split: completion.splits)

lemma catalog_success:
  assumes "fst (catalog w req g j rawId workId) = Response r" and "status r = 200"
  shows "\<exists>locId scheme nativeId.
           fst (lookup w req g j rawId (Some workId) (Some locId) scheme nativeId) = Response r"
  using assms
  by (auto simp: catalog_def after_def status_jsonOrText
      split: option.splits completion.splits prod.splits)

lemma catalog_doi_success:
  assumes "fst (catalog_doi w req g j rawId workId) = Response r" and "status r = 200"
  shows "\<exists>locId scheme nativeId.
           fst (lookup w req g j rawId (Some workId) (Some locId) scheme nativeId) = Response r"
  using assms
  by (auto simp: catalog_doi_def after_def status_jsonOrText Let_def
      split: option.splits completion.splits prod.splits if_splits)

lemma gate_success:
  assumes "fst (gate w req j rest) = Response r" and "status r = 200"
  shows "fst rest = Response r"
  using assms
  by (auto simp: gate_def after_def status_jsonOrText split: prod.splits if_splits)

lemma fetch_success:
  assumes "pathParts req = [p0, rawId, p2, kind]"
    and "fst (fetch w req) = Response r" and "status r = 200"
  shows "\<exists>workId. normalizeWorkId (URL_pathname w) rawId = Some workId \<and> workId \<noteq> []
           \<and> fst (catalog w req (kind = ''parsed-pdf'') (wantsJson req) rawId workId) = Response r"
proof -
  from assms obtain workId where n: "normalizeWorkId (URL_pathname w) rawId = Some workId"
    and ne: "workId \<noteq> []"
    and g: "fst (gate w req (wantsJson req)
                  (catalog w req (kind = ''parsed-pdf'') (wantsJson req) rawId workId)) = Response r"
    by (auto simp: fetch_def Let_def status_jsonOrText status_plain
        split: if_splits option.splits)
  from gate_success [OF g assms(3)] n ne show ?thesis
    by blast
qed

lemma fetch_doi_success:
  assumes "pathParts req = [p0, rawId]"
    and "fst (fetch_doi w req) = Response r" and "status r = 200"
    and "g = (searchParams_get (searchParams (req_url req)) ''format'' = Some ''parsed-pdf'')"
  shows "if startsWith rawId ''10.''
         then fst (lookup w req g (wantsJson req) rawId None None ''doi'' rawId) = Response r
         else (\<exists>workId. normalizeWorkId_doi (URL_pathname w) rawId = Some workId \<and> workId \<noteq> []
                 \<and> fst (catalog_doi w req g (wantsJson req) rawId workId) = Response r)"
proof (cases "startsWith rawId ''10.''")
  case True
  with assms have "fst (gate w req (wantsJson req)
                     (lookup w req g (wantsJson req) rawId None None ''doi'' rawId)) = Response r"
    by (auto simp: fetch_doi_def Let_def status_plain split: if_splits)
  from gate_success [OF this assms(3)] True show ?thesis
    by simp
next
  case False
  with assms obtain workId where n: "normalizeWorkId_doi (URL_pathname w) rawId = Some workId"
    and ne: "workId \<noteq> []"
    and c: "fst (gate w req (wantsJson req)
                  (catalog_doi w req g (wantsJson req) rawId workId)) = Response r"
    by (auto simp: fetch_doi_def Let_def status_jsonOrText status_plain
        split: if_splits option.splits)
  from gate_success [OF c assms(3)] n ne False show ?thesis
    by auto
qed

lemma sanitize_canonical: "canonical s \<Longrightarrow> sanitize s = s"
proof -
  have d: "isDigit c \<Longrightarrow> c \<notin> set unsafeChars" for c
    apply (simp add: isDigit_def)
    apply (elim disjE)
    apply (simp_all add: unsafeChars_def)
    done
  have m: "list_all isDigit ds \<Longrightarrow> map (\<lambda>c. if c \<in> set unsafeChars then CHR ''_'' else c) ds = ds"
    for ds
    by (induction ds) (simp_all add: d)
  assume "canonical s"
  then obtain ds where s: "s = CHR ''W'' # ds" and dg: "list_all isDigit ds"
    by (cases s) (auto simp: canonical_def)
  have "CHR ''W'' \<notin> set unsafeChars"
    by (simp add: unsafeChars_def)
  with m [OF dg] show ?thesis
    by (simp add: sanitize_def s)
qed

lemma sanitize_pointwise:
  "length (sanitize s) = length s
   \<and> (\<forall>i < length s. sanitize s ! i = (if s ! i \<in> set unsafeChars then CHR ''_'' else s ! i))"
  by (simp add: sanitize_def)

text \<open>
  Claim C7, as amended. The file name in the header \<^verbatim>\<open>Content-Disposition\<close> of a stream-mode
  success response is the identifier with every character of the set \<^verbatim>\<open>/ \ : * ? " < > |\<close>
  replaced by an underscore and no other character altered (\<open>sanitize\<close>), followed by the
  extension of the kind. The identifier is the canonical work identifier; on the endpoint
  \<^verbatim>\<open>/work/{id}\<close> it is the raw identifier when that starts with \<^verbatim>\<open>10.\<close>.
\<close>

theorem stream_filename:
  assumes "\<not> wantsJson req"
  shows "(pathParts req = [p0, rawId, p2, kind] \<and> fst (fetch w req) = Response r \<and> status r = 200
            \<longrightarrow> (\<exists>workId. normalizeWorkId (URL_pathname w) rawId = Some workId
                   \<and> headers r ''content-disposition''
                       = Some (contentDisposition
                                 (sanitize workId @ fileExt (kind = ''parsed-pdf'')))))
         \<and> (pathParts req = [q0, rawId'] \<and> fst (fetch_doi w req) = Response r' \<and> status r' = 200
            \<longrightarrow> (\<exists>name.
                   (if startsWith rawId' ''10.'' then name = rawId'
                    else normalizeWorkId_doi (URL_pathname w) rawId' = Some name)
                   \<and> headers r' ''content-disposition''
                       = Some (contentDisposition
                                 (sanitize name @ fileExt
                                    (searchParams_get (searchParams (req_url req)) ''format''
                                       = Some ''parsed-pdf'')))))"
proof (intro conjI impI)
  assume a: "pathParts req = [p0, rawId, p2, kind] \<and> fst (fetch w req) = Response r \<and> status r = 200"
  then obtain workId where n: "normalizeWorkId (URL_pathname w) rawId = Some workId"
    and ne: "workId \<noteq> []"
    and c: "fst (catalog w req (kind = ''parsed-pdf'') False rawId workId) = Response r"
    using fetch_success [of req p0 rawId p2 kind w r] assms by auto
  from catalog_success [OF c] a obtain locId scheme nativeId where
    "fst (lookup w req (kind = ''parsed-pdf'') False rawId (Some workId) (Some locId)
            scheme nativeId) = Response r"
    by blast
  from lookup_success_name [OF this] a ne
  have "headers r ''content-disposition''
          = Some (contentDisposition (sanitize workId @ fileExt (kind = ''parsed-pdf'')))"
    by (simp add: safeName_def orElse_def)
  with n show "\<exists>workId. normalizeWorkId (URL_pathname w) rawId = Some workId
                   \<and> headers r ''content-disposition''
                       = Some (contentDisposition
                                 (sanitize workId @ fileExt (kind = ''parsed-pdf'')))"
    by blast
next
  let ?g = "searchParams_get (searchParams (req_url req)) ''format'' = Some ''parsed-pdf''"
  assume a: "pathParts req = [q0, rawId'] \<and> fst (fetch_doi w req) = Response r'
               \<and> status r' = 200"
  then have s: "if startsWith rawId' ''10.''
         then fst (lookup w req ?g False rawId' None None ''doi'' rawId') = Response r'
         else (\<exists>workId. normalizeWorkId_doi (URL_pathname w) rawId' = Some workId \<and> workId \<noteq> []
                 \<and> fst (catalog_doi w req ?g False rawId' workId) = Response r')"
    using fetch_doi_success [of req q0 rawId' w r' ?g] assms by (auto split: if_splits)
  show "\<exists>name. (if startsWith rawId' ''10.'' then name = rawId'
                 else normalizeWorkId_doi (URL_pathname w) rawId' = Some name)
               \<and> headers r' ''content-disposition''
                   = Some (contentDisposition (sanitize name @ fileExt ?g))"
  proof (cases "startsWith rawId' ''10.''")
    case True
    with s have "fst (lookup w req ?g False rawId' None None ''doi'' rawId') = Response r'"
      by simp
    from lookup_success_name [OF this] a True show ?thesis
      by (simp add: safeName_def orElse_def)
  next
    case False
    with s obtain workId where n: "normalizeWorkId_doi (URL_pathname w) rawId' = Some workId"
      and ne: "workId \<noteq> []"
      and c: "fst (catalog_doi w req ?g False rawId' workId) = Response r'"
      by auto
    from catalog_doi_success [OF c] a obtain locId scheme nativeId where
      "fst (lookup w req ?g False rawId' (Some workId) (Some locId) scheme nativeId)
         = Response r'"
      by blast
    from lookup_success_name [OF this] a ne
    have "headers r' ''content-disposition''
            = Some (contentDisposition (sanitize workId @ fileExt ?g))"
      by (simp add: safeName_def orElse_def)
    with n False show ?thesis
      by auto
  qed
qed

lemma demo_stream_W1:
  "fetch demo (get ''/works/W1/best_oa_location/pdf'' [(''api_key'', ''good'')]) =
     (Response \<lparr>status = 200, body = FromR2 ''%PDF'',
        headers = [''content-type'' \<mapsto> ''application/pdf'',
                   ''content-disposition'' \<mapsto> contentDisposition ''W1.pdf'',
                   ''cache-control'' \<mapsto> ''private, no-store'']\<rparr>,
      [CallD1 ''good'',
       CallOpenAlex ''https://api.openalex.org/works/W1?data-version=2&select=id,best_oa_location'',
       CallDynamo ''harvested-pdf'' ''10.1/abc'',
       CallR2Get PDFS ''u1.pdf''])"
  by (simp add: handler_defs stage_defs string_defs demo_defs)

lemma demo_stream_doi:
  "fetch_doi demo (get ''/work/10.1:2'' [(''api_key'', ''good''), (''format'', ''pdf'')]) =
     (Response \<lparr>status = 200, body = FromR2 ''%PDF'',
        headers = [''content-type'' \<mapsto> ''application/pdf'',
                   ''content-disposition'' \<mapsto> contentDisposition ''10.1_2.pdf'',
                   ''cache-control'' \<mapsto> ''private, no-store'']\<rparr>,
      [CallD1 ''good'', CallDynamo ''harvested-pdf'' ''10.1:2'', CallR2Get PDFS ''u1.pdf''])"
  by (simp add: handler_defs stage_defs string_defs demo_defs)

theorem stream_filename_witness:
  "\<not> wantsJson (get ''/works/W1/best_oa_location/pdf'' [(''api_key'', ''good'')])
   \<and> \<not> wantsJson (get ''/work/10.1:2'' [(''api_key'', ''good''), (''format'', ''pdf'')])
   \<and> headers \<lparr>status = 200, body = FromR2 ''%PDF'',
        headers = [''content-type'' \<mapsto> ''application/pdf'',
                   ''content-disposition'' \<mapsto> contentDisposition ''W1.pdf'',
                   ''cache-control'' \<mapsto> ''private, no-store'']\<rparr> ''content-disposition''
       = Some (contentDisposition (sanitize ''W1'' @ fileExt (''pdf'' = ''parsed-pdf'')))
   \<and> headers \<lparr>status = 200, body = FromR2 ''%PDF'',
        headers = [''content-type'' \<mapsto> ''application/pdf'',
                   ''content-disposition'' \<mapsto> contentDisposition ''10.1_2.pdf'',
                   ''cache-control'' \<mapsto> ''private, no-store'']\<rparr> ''content-disposition''
       = Some (contentDisposition (sanitize ''10.1:2'' @ fileExt (Some ''pdf'' = Some ''parsed-pdf'')))"
proof -
  let ?r1 = "get ''/works/W1/best_oa_location/pdf'' [(''api_key'', ''good'')]"
  let ?r2 = "get ''/work/10.1:2'' [(''api_key'', ''good''), (''format'', ''pdf'')]"
  have j: "\<not> wantsJson ?r1" "\<not> wantsJson ?r2"
    by (simp_all add: wantsJson_def get_def string_defs)
  have p1: "pathParts ?r1 = [''works'', ''W1'', ''best_oa_location'', ''pdf'']"
    and p2: "pathParts ?r2 = [''work'', ''10.1:2'']"
    by (simp_all add: pathParts_def get_def)
  have f: "searchParams_get (searchParams (req_url ?r2)) ''format'' = Some ''pdf''"
    by (simp add: searchParams_get_def get_def)
  have d: "startsWith ''10.1:2'' ''10.''"
    by (simp add: startsWith_def)
  let ?a = "\<lparr>status = 200, body = FromR2 ''%PDF'',
        headers = [''content-type'' \<mapsto> ''application/pdf'',
                   ''content-disposition'' \<mapsto> contentDisposition ''W1.pdf'',
                   ''cache-control'' \<mapsto> ''private, no-store'']\<rparr>"
  let ?b = "\<lparr>status = 200, body = FromR2 ''%PDF'',
        headers = [''content-type'' \<mapsto> ''application/pdf'',
                   ''content-disposition'' \<mapsto> contentDisposition ''10.1_2.pdf'',
                   ''cache-control'' \<mapsto> ''private, no-store'']\<rparr>"
  from stream_filename [OF j(1), where w = demo and ?p0.0 = "''works''" and rawId = "''W1''"
      and ?p2.0 = "''best_oa_location''" and kind = "''pdf''" and r = ?a]
    p1 demo_normalize(1)
  have a: "headers \<lparr>status = 200, body = FromR2 ''%PDF'',
        headers = [''content-type'' \<mapsto> ''application/pdf'',
                   ''content-disposition'' \<mapsto> contentDisposition ''W1.pdf'',
                   ''cache-control'' \<mapsto> ''private, no-store'']\<rparr> ''content-disposition''
       = Some (contentDisposition (sanitize ''W1'' @ fileExt (''pdf'' = ''parsed-pdf'')))"
    by (simp add: demo_stream_W1)
  from stream_filename [OF j(2), where w = demo and ?q0.0 = "''work''" and rawId' = "''10.1:2''"
      and r' = ?b] p2 d
  have b: "headers \<lparr>status = 200, body = FromR2 ''%PDF'',
        headers = [''content-type'' \<mapsto> ''application/pdf'',
                   ''content-disposition'' \<mapsto> contentDisposition ''10.1_2.pdf'',
                   ''cache-control'' \<mapsto> ''private, no-store'']\<rparr> ''content-disposition''
       = Some (contentDisposition (sanitize ''10.1:2'' @ fileExt (Some ''pdf'' = Some ''parsed-pdf'')))"
    by (simp add: demo_stream_doi f)
  from j a b show ?thesis
    by simp
qed

theorem stream_filename_counterexample:
  "fst (fetch_doi demo (get ''/work/10.1:2'' [(''api_key'', ''good''), (''format'', ''pdf'')])) =
     Response \<lparr>status = 200, body = FromR2 ''%PDF'',
        headers = [''content-type'' \<mapsto> ''application/pdf'',
                   ''content-disposition'' \<mapsto> contentDisposition ''10.1_2.pdf'',
                   ''cache-control'' \<mapsto> ''private, no-store'']\<rparr>
   \<and> stripUnsafe ''10.1:2'' @ fileExt False = ''10.12.pdf''
   \<and> contentDisposition ''10.1_2.pdf'' \<noteq> contentDisposition ''10.12.pdf''"
  by (simp add: handler_defs stage_defs string_defs demo_defs stripUnsafe_def)

section \<open>Foreign identifiers\<close>

lemma s3HeadObject_no_catalog: "CallOpenAlex e \<notin> set (snd (s3HeadObject w bucket key))"
  by (simp add: s3HeadObject_def Let_def split: completion.splits)

lemma s3GetObject_no_catalog: "CallOpenAlex e \<notin> set (snd (s3GetObject w bucket key))"
  by (simp add: s3GetObject_def Let_def split: completion.splits)

lemma probe_no_catalog: "CallOpenAlex e \<notin> set (snd (probe w g key))"
  using s3HeadObject_no_catalog [of e w "s3Bucket g" key]
  by (cases "s3HeadObject w (s3Bucket g) key")
    (auto simp: probe_def Let_def split: completion.splits bool.splits)

lemma probe_pair_no_catalog: "probe w g key = (x, tr) \<Longrightarrow> CallOpenAlex e \<notin> set tr"
  using probe_no_catalog [of e w g key] by simp

lemma s3GetObject_pair_no_catalog:
  "s3GetObject w bucket key = (x, tr) \<Longrightarrow> CallOpenAlex e \<notin> set tr"
  using s3GetObject_no_catalog [of e w bucket key] by simp

lemma metadata_no_catalog:
  "CallOpenAlex e \<notin> set (snd (metadata w req g rawId workId locId scheme nativeId uuid found))"
  by (auto simp: metadata_def Let_def dest: probe_pair_no_catalog
      split: option.splits prod.splits completion.splits)

lemma download_no_catalog: "CallOpenAlex e \<notin> set (snd (download w g rawId workId uuid))"
  by (auto simp: download_def after_def Let_def dest: s3GetObject_pair_no_catalog
      split: option.splits prod.splits completion.splits if_splits)

lemma lookup_no_catalog:
  "CallOpenAlex e \<notin> set (snd (lookup w req g j rawId workId locId scheme nativeId))"
  using metadata_no_catalog [of e w req g] download_no_catalog [of e w g]
  by (auto simp: lookup_def after_def Let_def split: completion.splits)

lemma checkApiKey_no_catalog: "CallOpenAlex e \<notin> set (snd (checkApiKey w req))"
  by (auto simp: checkApiKey_def split: option.splits completion.splits if_splits)

lemma gate_status:
  assumes "fst (gate w req j rest) = Response r"
  shows "status r = 401 \<or> status r = 403 \<or> fst rest = Response r"
  using assms
  by (auto simp: gate_def after_def status_jsonOrText split: prod.splits if_splits)

lemma gate_calls:
  "snd (gate w req j rest) =
     snd (checkApiKey w req)
       @ (if valid (fst (checkApiKey w req)) \<and> hasCreditCard (fst (checkApiKey w req))
          then snd rest else [])"
  by (cases "checkApiKey w req") (simp add: gate_def after_def)

lemma metadata_body:
  assumes "fst (metadata w req g rawId workId locId scheme nativeId uuid found) = Response r"
  shows "\<exists>obj. body r = JSON_stringify obj
           \<and> map_of obj ''work_id'' = Some (JStr rawId)
           \<and> map_of obj ''best_oa_location_id'' = Some (nullable locId)
           \<and> map_of obj ''native_id'' = Some (JStr nativeId)
           \<and> map_of obj ''native_id_namespace'' = Some (JStr scheme)"
  using assms
  by (auto simp: metadata_def json_def Let_def
      split: option.splits prod.splits completion.splits)

lemma fetch_doi_foreign:
  assumes "req_method req = ''GET''"
    and "pathParts req = [''work'', rawId]"
    and "searchParams_get (searchParams (req_url req)) ''format'' = Some format"
    and "format = ''pdf'' \<or> format = ''parsed-pdf''"
    and "startsWith rawId ''10.''"
  shows "fetch_doi w req =
           gate w req (wantsJson req)
             (lookup w req (format = ''parsed-pdf'') (wantsJson req) rawId None None ''doi'' rawId)"
  using assms by (auto simp: fetch_doi_def Let_def)

text \<open>
  Claim C1, as amended. On the endpoint \<^verbatim>\<open>/work/{id}?format={kind}\<close>, a raw identifier that
  starts with \<^verbatim>\<open>10.\<close> is a foreign identifier: the handler never calls the catalog and never
  answers 400; once the API key is accepted, the call after the key check is the index query
  for the raw identifier as native id, and in metadata mode the body reports the raw
  identifier as \<^verbatim>\<open>native_id\<close> with the namespace \<^verbatim>\<open>doi\<close> and no catalog reference.
\<close>

theorem foreign_identifier_bypass:
  assumes "req_method req = ''GET''"
    and "pathParts req = [''work'', rawId]"
    and "searchParams_get (searchParams (req_url req)) ''format'' = Some format"
    and "format = ''pdf'' \<or> format = ''parsed-pdf''"
    and "startsWith rawId ''10.''"
  shows "(\<forall>e. CallOpenAlex e \<notin> set (snd (fetch_doi w req)))
         \<and> (\<forall>r. fst (fetch_doi w req) = Response r \<longrightarrow> status r \<noteq> 400)
         \<and> (valid (fst (checkApiKey w req)) \<and> hasCreditCard (fst (checkApiKey w req)) \<longrightarrow>
              (\<exists>rest. snd (fetch_doi w req) =
                 snd (checkApiKey w req)
                   @ CallDynamo (tableName (format = ''parsed-pdf'')) rawId # rest))
         \<and> (\<forall>r. wantsJson req \<and> fst (fetch_doi w req) = Response r \<and> status r = 200 \<longrightarrow>
              (\<exists>obj. body r = JSON_stringify obj
                 \<and> map_of obj ''native_id'' = Some (JStr rawId)
                 \<and> map_of obj ''native_id_namespace'' = Some (JStr ''doi'')
                 \<and> map_of obj ''best_oa_location_id'' = Some JNull))"
proof (intro conjI allI impI)
  let ?g = "format = ''parsed-pdf''"
  let ?rest = "lookup w req ?g (wantsJson req) rawId None None ''doi'' rawId"
  note f = fetch_doi_foreign [OF assms]
  show "CallOpenAlex e \<notin> set (snd (fetch_doi w req))" for e
    using checkApiKey_no_catalog [of e w req] lookup_no_catalog [of e w req ?g]
    by (simp add: f gate_calls)
  show "status r \<noteq> 400" if "fst (fetch_doi w req) = Response r" for r
    using gate_status [of w req "wantsJson req" ?rest r] that lookup_status [of w req ?g]
    by (fastforce simp: f)
  show "\<exists>rest. snd (fetch_doi w req) =
          snd (checkApiKey w req) @ CallDynamo (tableName ?g) rawId # rest"
    if "valid (fst (checkApiKey w req)) \<and> hasCreditCard (fst (checkApiKey w req))"
    using that lookup_calls_index [of w req ?g "wantsJson req" rawId None None "''doi''" rawId]
    by (auto simp: f gate_calls)
  show "\<exists>obj. body r = JSON_stringify obj
          \<and> map_of obj ''native_id'' = Some (JStr rawId)
          \<and> map_of obj ''native_id_namespace'' = Some (JStr ''doi'')
          \<and> map_of obj ''best_oa_location_id'' = Some JNull"
    if a: "wantsJson req \<and> fst (fetch_doi w req) = Response r \<and> status r = 200" for r
  proof -
    from a have j: "wantsJson req = True" and s: "status r = 200"
      and "fst (fetch_doi w req) = Response r"
      by simp_all
    then have "fst (gate w req (wantsJson req) ?rest) = Response r"
      by (simp only: f)
    from gate_success [OF this s] have l: "fst (lookup w req ?g True rawId None None ''doi'' rawId)
        = Response r"
      by (simp only: j)
    then have "\<exists>found uuid. fst (metadata w req ?g rawId None None ''doi'' rawId uuid found)
        = Response r"
      using a by (auto simp: lookup_def after_def Let_def jsonOrText_def json_def
          split: completion.splits)
    then show ?thesis
      using metadata_body [of w req ?g rawId None None "''doi''" rawId] 
      by (fastforce simp: nullable_def)
  qed
qed

theorem foreign_identifier_bypass_witness:
  "startsWith ''10.1:2'' ''10.''
   \<and> CallOpenAlex (openAlexEndpoint ''10.1:2'')
       \<notin> set (snd (fetch_doi demo (get ''/work/10.1:2''
                  [(''api_key'', ''good''), (''format'', ''pdf''), (''json'', ''true'')])))
   \<and> fetch_doi demo (get ''/work/10.1:2''
         [(''api_key'', ''good''), (''format'', ''pdf''), (''json'', ''true'')])
     = (Response (json 200
          [(''work_id'', JStr ''10.1:2''),
           (''work_api'', JNull),
           (''best_oa_location_id'', JNull),
           (''native_id'', JStr ''10.1:2''),
           (''native_id_namespace'', JStr ''doi''),
           (''mapping_found_in_dynamodb'', JBool True),
           (''file_uuid'', JStr ''u1''),
           (''file_key'', JStr ''u1.pdf''),
           (''in_r2'', JBool True),
           (''in_s3'', JBool False),
           (''download_url'', JStr ''https://content.example/work/10.1:2'')]),
        [CallD1 ''good'',
         CallDynamo ''harvested-pdf'' ''10.1:2'',
         CallR2Head PDFS ''u1.pdf'',
         CallR2Get PDFS ''u1.pdf'',
         CallS3 ''HEAD'' ''https://openalex-harvested-pdfs.s3.amazonaws.com/u1.pdf''])"
proof -
  let ?r = "get ''/work/10.1:2'' [(''api_key'', ''good''), (''format'', ''pdf''), (''json'', ''true'')]"
  have m: "req_method ?r = ''GET''"
    by (simp add: get_def)
  have p: "pathParts ?r = [''work'', ''10.1:2'']"
    by (simp add: pathParts_def get_def)
  have f: "searchParams_get (searchParams (req_url ?r)) ''format'' = Some ''pdf''"
    by (simp add: searchParams_get_def get_def)
  have k: "''pdf'' = ''pdf'' \<or> ''pdf'' = ''parsed-pdf''"
    by simp
  have d: "startsWith ''10.1:2'' ''10.''"
    by (simp add: startsWith_def)
  have e: "fetch_doi demo ?r
     = (Response (json 200
          [(''work_id'', JStr ''10.1:2''),
           (''work_api'', JNull),
           (''best_oa_location_id'', JNull),
           (''native_id'', JStr ''10.1:2''),
           (''native_id_namespace'', JStr ''doi''),
           (''mapping_found_in_dynamodb'', JBool True),
           (''file_uuid'', JStr ''u1''),
           (''file_key'', JStr ''u1.pdf''),
           (''in_r2'', JBool True),
           (''in_s3'', JBool False),
           (''download_url'', JStr ''https://content.example/work/10.1:2'')]),
        [CallD1 ''good'',
         CallDynamo ''harvested-pdf'' ''10.1:2'',
         CallR2Head PDFS ''u1.pdf'',
         CallR2Get PDFS ''u1.pdf'',
         CallS3 ''HEAD'' ''https://openalex-harvested-pdfs.s3.amazonaws.com/u1.pdf''])"
    by (simp add: handler_defs stage_defs string_defs demo_defs)
  from foreign_identifier_bypass [OF m p f k d, of demo] d e show ?thesis
    by simp
qed

theorem foreign_identifier_rejected_counterexample:
  "startsWith ''10.1'' ''10.''
   \<and> pathParts (get ''/works/10.1/best_oa_location/pdf'' [(''api_key'', ''good'')])
       = [''works'', ''10.1'', ''best_oa_location'', ''pdf'']
   \<and> fetch demo (get ''/works/10.1/best_oa_location/pdf'' [(''api_key'', ''good'')])
       = (Response (plain 400 ''Invalid work id''), [])"
  by (simp add: handler_defs stage_defs string_defs demo_defs)

lemma first_handler_rejects_foreign:
  assumes "pathParts req = [''works'', rawId, ''best_oa_location'', kind]"
    and "URL_pathname w (trim rawId) = None" and "\<not> matchesWorkCode (trim rawId)"
  shows "\<exists>r. fetch w req = (Response r, []) \<and> (status r = 400 \<or> status r = 404 \<or> status r = 405)"
  using assms
  by (auto simp: fetch_def normalizeWorkId_def Let_def status_jsonOrText status_plain)

lemma foreign_identifier_from_backup:
  "fetch_doi (demo\<lparr>r2_get := \<lambda>_ _. Returns None,
                   aws_fetch := \<lambda>m u. Returns \<lparr>s3_status = 200,
                     s3_content_type = Some ''application/pdf'',
                     s3_content_length = Some ''4'', s3_body = ''%PDF''\<rparr>\<rparr>)
     (get ''/work/10.1:2'' [(''api_key'', ''good''), (''format'', ''pdf'')])
   = (Response \<lparr>status = 200, body = FromS3 ''%PDF'',
        headers = [''content-type'' \<mapsto> ''application/pdf'',
                   ''content-disposition'' \<mapsto> contentDisposition ''10.1_2.pdf'',
                   ''cache-control'' \<mapsto> ''private, no-store'',
                   ''content-length'' \<mapsto> ''4'']\<rparr>,
      [CallD1 ''good'', CallDynamo ''harvested-pdf'' ''10.1:2'', CallR2Get PDFS ''u1.pdf'',
       CallS3 ''GET'' ''https://openalex-harvested-pdfs.s3.amazonaws.com/u1.pdf''])"
  by (simp add: handler_defs stage_defs string_defs demo_defs Let_def)

lemma foreign_identifier_with_slash:
  "fst (fetch_doi demo (get ''/work/10.1/abc'' [(''api_key'', ''good''), (''format'', ''pdf'')]))
     = Response (plain 404 ''Not Found'')"
  "snd (fetch_doi demo (get ''/work/10.1%2Fabc'' [(''api_key'', ''good''), (''format'', ''pdf'')]))
     = [CallD1 ''good'', CallDynamo ''harvested-pdf'' ''10.1%2Fabc'']"
  by (simp_all add: handler_defs stage_defs string_defs demo_defs)

section \<open>Every error of the first handler in text mode\<close>

lemma jsonOrText_text_body:
  assumes "map_of obj ''error'' = Some (JStr e)" and "e \<noteq> []"
  shows "body (jsonOrText False st obj) = Text e"
  using assms by (simp add: jsonOrText_def)

lemma download_text:
  assumes "fst (download w g rawId workId uuid) = Response r" and "status r \<noteq> 200"
  shows "\<exists>t. body r = Text t"
  using assms
  by (auto simp: download_def after_def plain_def Let_def
      split: option.splits completion.splits if_splits prod.splits)

lemma lookup_text:
  assumes "fst (lookup w req g False rawId workId locId scheme nativeId) = Response r"
    and "status r \<noteq> 200"
  shows "\<exists>t. body r = Text t"
  using assms
  by (auto simp: lookup_def after_def Let_def jsonOrText_def
      dest: download_text split: completion.splits)

lemma catalog_text:
  assumes "fst (catalog w req g False rawId workId) = Response r" and "status r \<noteq> 200"
  shows "\<exists>t. body r = Text t"
  using assms
  by (auto simp: catalog_def after_def jsonOrText_def dest: lookup_text
      split: option.splits completion.splits prod.splits)

lemma gate_text:
  assumes "fst (gate w req False rest) = Response r"
  shows "(\<exists>t. body r = Text t) \<or> fst rest = Response r"
  using assms
  by (auto simp: gate_def after_def jsonOrText_def split: prod.splits if_splits)

lemma fetch_text_errors:
  assumes "\<not> wantsJson req" and "fst (fetch w req) = Response r" and "status r \<noteq> 200"
  shows "\<exists>t. body r = Text t"
proof -
  from assms(1,2) have "(\<exists>t. body r = Text t)
      \<or> (\<exists>g rawId workId. fst (gate w req False (catalog w req g False rawId workId)) = Response r)"
    by (auto simp: fetch_def Let_def jsonOrText_def plain_def
        split: if_splits option.splits list.splits)
  then show ?thesis
    using gate_text catalog_text assms(3) by blast
qed

section \<open>The second handler on work identifiers\<close>

text \<open>
  For an identifier that does not start with \<^verbatim>\<open>10.\<close>, the second handler takes the same steps
  as the first: a malformed location reference is answered with 502, and a well-formed one
  leads to the same index lookup and tiers.
\<close>

lemma fetch_doi_past_gate:
  assumes "req_method req = ''GET''"
    and "pathParts req = [''work'', rawId]"
    and "searchParams_get (searchParams (req_url req)) ''format'' = Some format"
    and "format = ''pdf'' \<or> format = ''parsed-pdf''"
    and "\<not> startsWith rawId ''10.''"
    and "normalizeWorkId_doi (URL_pathname w) rawId = Some workId"
    and "valid (fst (checkApiKey w req))" and "hasCreditCard (fst (checkApiKey w req))"
  shows "fetch_doi w req = after (snd (checkApiKey w req))
           (catalog_doi w req (format = ''parsed-pdf'') (wantsJson req) rawId workId)"
proof -
  have ne: "workId \<noteq> []"
    using normalizeWorkId_doi_canonical [OF assms(6)] by (auto simp: canonical_def)
  have "fetch_doi w req = gate w req (wantsJson req)
          (catalog_doi w req (format = ''parsed-pdf'') (wantsJson req) rawId workId)"
    using assms(1-6) ne by (auto simp: fetch_doi_def Let_def)
  then show ?thesis
    using assms(7,8) by (cases "checkApiKey w req") (simp add: gate_def)
qed

lemma catalog_doi_located:
  assumes "http_fetch w (openAlexEndpoint workId) = Body (Some work)"
    and "best_oa_location work = Some loc" and "location_id loc = Some locId"
  shows "catalog_doi w req g j rawId workId =
           (case splitLocationId locId of
              None \<Rightarrow>
                (Response (jsonOrText j 502
                   (if locId = []
                    then [(''error'', JStr ''Missing best_oa_location.id''),
                          (''work_id'', JStr workId)]
                    else [(''error'', JStr ''Unrecognized best_oa_location.id format''),
                          (''work_id'', JStr workId),
                          (''best_oa_location_id'', JStr locId)])),
                 [CallOpenAlex (openAlexEndpoint workId)])
            | Some (scheme, nativeId) \<Rightarrow>
                after [CallOpenAlex (openAlexEndpoint workId)]
                  (lookup w req g j rawId (Some workId) (Some locId) scheme nativeId))"
proof (cases "locId = []")
  case True
  then have "splitLocationId locId = None"
    by (simp add: splitLocationId_def indexOf_def)
  with True assms show ?thesis
    by (simp add: catalog_doi_def fetchOpenAlexWork_def Let_def)
next
  case False
  with assms show ?thesis
    by (simp add: catalog_doi_def fetchOpenAlexWork_def Let_def split: option.splits)
qed

lemma doi_handler_malformed_502:
  assumes "req_method req = ''GET''"
    and "pathParts req = [''work'', rawId]"
    and "searchParams_get (searchParams (req_url req)) ''format'' = Some format"
    and "format = ''pdf'' \<or> format = ''parsed-pdf''"
    and "\<not> startsWith rawId ''10.''"
    and "normalizeWorkId_doi (URL_pathname w) rawId = Some workId"
    and "valid (fst (checkApiKey w req))" and "hasCreditCard (fst (checkApiKey w req))"
    and "http_fetch w (openAlexEndpoint workId) = Body (Some work)"
    and "best_oa_location work = Some loc" and "location_id loc = Some locId"
  shows "(\<exists>r. fst (fetch_doi w req) = Response r \<and> status r = 502) \<longleftrightarrow> malformed locId"
proof (cases "splitLocationId locId")
  case None
  then have "malformed locId"
    by (simp add: splitLocationId_None_iff)
  with None show ?thesis
    by (simp add: fetch_doi_past_gate [OF assms(1-8)] catalog_doi_located [OF assms(9-11)]
        after_def status_jsonOrText)
next
  case (Some p)
  then have wf: "\<not> malformed locId"
    using splitLocationId_None_iff [of locId] by simp
  obtain scheme nativeId where p: "p = (scheme, nativeId)"
    by (cases p)
  have "status r \<noteq> 502"
    if "fst (lookup w req (format = ''parsed-pdf'') (wantsJson req) rawId (Some workId)
               (Some locId) scheme nativeId) = Response r" for r
    using lookup_status [OF that] by auto
  with Some p wf show ?thesis
    by (auto simp: fetch_doi_past_gate [OF assms(1-8)] catalog_doi_located [OF assms(9-11)]
        after_def)
qed

lemma fetch_doi_located:
  assumes "req_method req = ''GET''"
    and "pathParts req = [''work'', rawId]"
    and "searchParams_get (searchParams (req_url req)) ''format'' = Some format"
    and "format = ''pdf'' \<or> format = ''parsed-pdf''"
    and "\<not> startsWith rawId ''10.''"
    and "normalizeWorkId_doi (URL_pathname w) rawId = Some workId"
    and "valid (fst (checkApiKey w req))" and "hasCreditCard (fst (checkApiKey w req))"
    and "http_fetch w (openAlexEndpoint workId) = Body (Some work)"
    and "best_oa_location work = Some loc" and "location_id loc = Some locId"
    and "splitLocationId locId = Some (scheme, nativeId)"
  shows "fetch_doi w req =
           after (snd (checkApiKey w req) @ [CallOpenAlex (openAlexEndpoint workId)])
             (lookup w req (format = ''parsed-pdf'') (wantsJson req) rawId (Some workId)
                (Some locId) scheme nativeId)"
  by (simp add: fetch_doi_past_gate [OF assms(1-8)] catalog_doi_located [OF assms(9-11)]
      assms(12) after_def)

end
